theory Spec2Isabelle
  imports Complex_Main "HOL-Library.Sublist" "HOL-Library.Multiset"
begin

section \<open>Values of the scraper\<close>

text \<open>
  A Python float (an IEEE double). A finite float is the rational it denotes; the
  negative zero is not modelled. Where the code makes a float from a string, an int or a
  decimal rounding, the value is rounded to the nearest double (\<open>round_double\<close> below).
\<close>

datatype pyfloat = Fin rat | PosInf | NegInf | NaN

text \<open>
  The scraper handles untyped Python values: what \<^verbatim>\<open>json.loads\<close> returns, what a raw
  product mapping holds. \<open>pyval\<close> is their tagged union. A dict is an association list in
  insertion order (its keys are strings, as \<^verbatim>\<open>Dict[str, Any]\<close> says); a \<^verbatim>\<open>datetime\<close>
  object is represented by the text its \<^verbatim>\<open>isoformat()\<close> returns. Strings are lists of
  characters with code points below 256.
\<close>

datatype pyval =
    PNone
  | PBool bool
  | PInt int
  | PFloat pyfloat
  | PStr string
  | PList "pyval list"
  | PDict "(string \<times> pyval) list"
  | PDatetime string

text \<open>The exceptions the modelled code can raise.\<close>

datatype error =
    ValueError
  | TypeError
  | KeyError
  | IndexError
  | AttributeError
  | OverflowError
  | OSError
  | ValidationError

section \<open>extractors/tiktok\_parser.py: the page-parse shape\<close>

text \<open>
  \<^verbatim>\<open>@dataclass class Product\<close>. A dataclass does not check its annotations: \<open>title\<close> and
  \<open>img\<close> hold whatever value the JSON node held, so they are \<open>pyval\<close>s. The other
  fields go through \<^verbatim>\<open>clean_*\<close> and \<^verbatim>\<open>normalize_product_link\<close>, which return strings
  (or None).
\<close>

record product =
  title :: pyval
  origin_price :: "string option"
  sale_price :: "string option"
  score :: "string option"
  sold :: "string option"
  product_link :: string
  img :: pyval

text \<open>
  The de-duplication loop of \<^verbatim>\<open>_parse_listing_page\<close>:
  \<^verbatim>\<open>
  unique: Dict[str, Product] = {}
  for product in products:
      if product.product_link not in unique:
          unique[product.product_link] = product
  return list(unique.values())
  \<close>
  The dict \<open>unique\<close> is an association list in insertion order; a new key is appended.
\<close>

fun dedupe_loop :: "(string \<times> product) list \<Rightarrow> product list \<Rightarrow> (string \<times> product) list" where
  "dedupe_loop unique [] = unique"
| "dedupe_loop unique (p # ps) =
     dedupe_loop
       (if map_of unique (product_link p) = None
        then unique @ [(product_link p, p)] else unique) ps"

definition dedupe :: "product list \<Rightarrow> product list" where
  "dedupe products = map snd (dedupe_loop [] products)"

text \<open>
  The specification's wording of the same operation, for comparison: keep a record, drop
  every later record with its key, go on.
\<close>

fun first_per_key :: "product list \<Rightarrow> product list" where
  "first_per_key [] = []"
| "first_per_key (p # ps) =
     p # first_per_key (filter (\<lambda>q. product_link q \<noteq> product_link p) ps)"

subsection \<open>Python's string methods\<close>

text \<open>
  \<^verbatim>\<open>str.lower\<close> and \<^verbatim>\<open>str.isspace\<close> on code points below 256:
  the capital letters are A to Z and U+00C0 to U+00DE without the multiplication sign;
  the white space is U+0009 to U+000D, U+001C to U+0020, U+0085 and U+00A0.
\<close>

definition lower_char :: "char \<Rightarrow> char" where
  "lower_char c =
     (let n = (of_char c :: nat)
      in if (65 \<le> n \<and> n \<le> 90) \<or> (192 \<le> n \<and> n \<le> 222 \<and> n \<noteq> 215)
         then char_of (n + 32) else c)"

definition py_lower :: "string \<Rightarrow> string" where
  "py_lower s = map lower_char s"

definition py_isspace :: "char \<Rightarrow> bool" where
  "py_isspace c =
     (let n = (of_char c :: nat)
      in (9 \<le> n \<and> n \<le> 13) \<or> (28 \<le> n \<and> n \<le> 32) \<or> n = 133 \<or> n = 160)"

text \<open>\<^verbatim>\<open>s.strip()\<close>: leading and trailing white space removed.\<close>

definition py_strip :: "string \<Rightarrow> string" where
  "py_strip s = rev (dropWhile py_isspace (rev (dropWhile py_isspace s)))"

text \<open>\<^verbatim>\<open>needle in hay\<close> on strings.\<close>

fun contains :: "string \<Rightarrow> string \<Rightarrow> bool" where
  "contains needle [] = (needle = [])"
| "contains needle (c # cs) = (prefix needle (c # cs) \<or> contains needle cs)"

text \<open>
  \<^verbatim>\<open>text.find(c, start)\<close> and \<^verbatim>\<open>text.rfind(c, lo, hi)\<close> for a one-character needle:
  the first (last) index in the range holding \<open>c\<close>; \<open>None\<close> is Python's \<open>-1\<close>.
\<close>

definition py_find :: "char \<Rightarrow> string \<Rightarrow> nat \<Rightarrow> nat option" where
  "py_find c text start = find (\<lambda>i. text ! i = c) [start ..< length text]"

definition py_rfind :: "char \<Rightarrow> string \<Rightarrow> nat \<Rightarrow> nat \<Rightarrow> nat option" where
  "py_rfind c text lo hi = find (\<lambda>i. text ! i = c) (rev [lo ..< min hi (length text)])"

text \<open>\<^verbatim>\<open>text[lo:hi]\<close> for \<open>0 \<le> lo\<close>, \<open>0 \<le> hi\<close>.\<close>

definition slice :: "string \<Rightarrow> nat \<Rightarrow> nat \<Rightarrow> string" where
  "slice text lo hi = drop lo (take hi text)"

subsection \<open>Truthiness, \<open>dict.get\<close> and \<open>str()\<close>\<close>

fun truthy :: "pyval \<Rightarrow> bool" where
  "truthy PNone = False"
| "truthy (PBool b) = b"
| "truthy (PInt i) = (i \<noteq> 0)"
| "truthy (PFloat x) = (x \<noteq> Fin 0)"
| "truthy (PStr s) = (s \<noteq> [])"
| "truthy (PList xs) = (xs \<noteq> [])"
| "truthy (PDict kvs) = (kvs \<noteq> [])"
| "truthy (PDatetime d) = True"

text \<open>\<^verbatim>\<open>a or b\<close>.\<close>

definition py_or :: "pyval \<Rightarrow> pyval \<Rightarrow> pyval" where
  "py_or a b = (if truthy a then a else b)"

text \<open>\<^verbatim>\<open>d.get(k)\<close> and \<^verbatim>\<open>d.get(k, default)\<close>.\<close>

definition get_default :: "(string \<times> pyval) list \<Rightarrow> string \<Rightarrow> pyval \<Rightarrow> pyval" where
  "get_default d k dflt = (case map_of d k of None \<Rightarrow> dflt | Some v \<Rightarrow> v)"

definition get :: "(string \<times> pyval) list \<Rightarrow> string \<Rightarrow> pyval" where
  "get d k = get_default d k PNone"

fun show_nat :: "nat \<Rightarrow> string" where
  "show_nat n =
     (if n < 10 then [char_of (48 + n)]
      else show_nat (n div 10) @ [char_of (48 + n mod 10)])"

definition show_int :: "int \<Rightarrow> string" where
  "show_int i = (if i < 0 then CHR ''-'' # show_nat (nat (- i)) else show_nat (nat i))"

text \<open>
  \<^verbatim>\<open>str(v)\<close>. The text of None, a bool, an int and a str is written out; the \<open>repr\<close>
  of a float, a list, a dict and a datetime is Python's own (shortest round-trip digits,
  quoting rules) and is the parameter \<open>rp\<close>.
\<close>

fun py_str :: "(pyval \<Rightarrow> string) \<Rightarrow> pyval \<Rightarrow> string" where
  "py_str rp PNone = ''None''"
| "py_str rp (PBool b) = (if b then ''True'' else ''False'')"
| "py_str rp (PInt i) = show_int i"
| "py_str rp (PStr s) = s"
| "py_str rp v = rp v"

subsection \<open>extractors/utils\_format.py\<close>

text \<open>
  \<^verbatim>\<open>clean_price\<close>, \<^verbatim>\<open>clean_score\<close>, \<^verbatim>\<open>clean_sold\<close>: the three bodies are the same.
  Every caller passes a string or None, so \<^verbatim>\<open>str(value)\<close> is the value.
\<close>

definition clean_price :: "string option \<Rightarrow> string option" where
  "clean_price value =
     (case value of None \<Rightarrow> None
      | Some v \<Rightarrow> (let text = py_strip v in if text = [] then None else Some text))"

definition clean_score :: "string option \<Rightarrow> string option" where
  "clean_score value =
     (case value of None \<Rightarrow> None
      | Some v \<Rightarrow> (let text = py_strip v in if text = [] then None else Some text))"

definition clean_sold :: "string option \<Rightarrow> string option" where
  "clean_sold value =
     (case value of None \<Rightarrow> None
      | Some v \<Rightarrow> (let text = py_strip v in if text = [] then None else Some text))"

text \<open>\<^verbatim>\<open>normalize_product_link(url: str)\<close>: an empty url is returned as it is.\<close>

definition normalize_product_link :: "string \<Rightarrow> string" where
  "normalize_product_link url = (if url = [] then url else py_strip url)"

subsection \<open>Strategy A: JSON in script blocks\<close>

text \<open>
  \<^verbatim>\<open>_extract_json_from_script\<close>. \<^verbatim>\<open>json.loads\<close> is the standard library's parser and is
  the parameter \<open>loads\<close>: \<open>None\<close> when it raises (the code catches every \<open>Exception\<close>).
  \<^verbatim>\<open>
  start = text.find("{")
  while start != -1:
      end = text.rfind("}")
      if end == -1 or end <= start:
          break
      candidate = text[start : end + 1]
      try:
          return json.loads(candidate)
      except Exception:
          end = text.rfind("}", start, end)
          if end == -1:
              break
      start = text.find("{", start + 1)
  raise ValueError("Could not extract JSON from script block")
  \<close>
  The value the \<open>except\<close> branch gives to \<open>end\<close> is tested against \<open>-1\<close> and then
  overwritten at the top of the next iteration.
\<close>

function extract_loop :: "(string \<Rightarrow> pyval option) \<Rightarrow> string \<Rightarrow> nat \<Rightarrow> error + pyval" where
  "extract_loop loads text start =
     (case py_rfind (CHR ''}'') text 0 (length text) of
        None \<Rightarrow> Inl ValueError
      | Some end \<Rightarrow>
          if end \<le> start then Inl ValueError
          else (case loads (slice text start (end + 1)) of
                  Some data \<Rightarrow> Inr data
                | None \<Rightarrow>
                    (case py_rfind (CHR ''}'') text start end of
                       None \<Rightarrow> Inl ValueError
                     | Some end' \<Rightarrow>
                         (case py_find (CHR ''{'') text (start + 1) of
                            None \<Rightarrow> Inl ValueError
                          | Some start' \<Rightarrow> extract_loop loads text start'))))"
  by pat_completeness auto
termination
proof (relation "measure (\<lambda>(loads, text, start). length text - start)")
  show "wf (measure (\<lambda>(loads, text, start). length text - start))"
    by simp
next
  fix loads :: "string \<Rightarrow> pyval option" and body :: string and start start' :: nat
  assume "py_find (CHR ''{'') body (start + 1) = Some start'"
  then have "start' \<in> set [start + 1 ..< length body]"
    unfolding py_find_def by (auto simp: find_Some_iff)
  then show "((loads, body, start'), (loads, body, start)) \<in> measure (\<lambda>(loads, text, start). length text - start)"
    by auto
qed

declare extract_loop.simps [simp del]

definition extract_json_from_script :: "(string \<Rightarrow> pyval option) \<Rightarrow> string \<Rightarrow> error + pyval" where
  "extract_json_from_script loads text =
     (case py_find (CHR ''{'') text 0 of
        None \<Rightarrow> Inl ValueError
      | Some start \<Rightarrow> extract_loop loads text start)"

text \<open>\<^verbatim>\<open>_looks_like_product_dict\<close>: the test on the lower-cased keys of a dict node.\<close>

definition looks_like_product_dict :: "(string \<times> pyval) list \<Rightarrow> bool" where
  "looks_like_product_dict node =
     (let keys = set (map (py_lower \<circ> fst) node)
      in (''title'' \<in> keys \<and> ''price'' \<in> keys) \<or>
         (''name'' \<in> keys \<and> ''image'' \<in> keys \<and> (''price'' \<in> keys \<or> ''offers'' \<in> keys)))"

text \<open>
  \<^verbatim>\<open>_product_from_dict\<close>. \<^verbatim>\<open>node["image"][0]\<close> raises IndexError on an empty list;
  \<^verbatim>\<open>normalize_product_link(link)\<close> calls \<^verbatim>\<open>.strip()\<close> on \<open>link\<close>, which is
  \<^verbatim>\<open>node.get("url") or base_url\<close>: a truthy value that is not a string has no such
  method (AttributeError). \<^verbatim>\<open>isinstance(x, (str, int, float))\<close> holds of a bool too.
  The local variables carry a prime where the name is a field of \<open>product\<close>.
\<close>

definition product_from_dict ::
    "(pyval \<Rightarrow> string) \<Rightarrow> (string \<times> pyval) list \<Rightarrow> string \<Rightarrow> error + product" where
  "product_from_dict rp node base_url =
     (let title' = py_or (get node ''title'') (get_default node ''name'' (PStr ''''));
          image' =
            (case get node ''image'' of
               PList xs \<Rightarrow> (case xs of [] \<Rightarrow> Inl IndexError | x # _ \<Rightarrow> Inr x)
             | PStr s \<Rightarrow> Inr (PStr s)
             | _ \<Rightarrow> Inr PNone);
          raw_price =
            (case get node ''price'' of
               PStr s \<Rightarrow> Some (py_str rp (PStr s))
             | PInt i \<Rightarrow> Some (py_str rp (PInt i))
             | PBool b \<Rightarrow> Some (py_str rp (PBool b))
             | PFloat x \<Rightarrow> Some (py_str rp (PFloat x))
             | _ \<Rightarrow>
                 (case get node ''offers'' of
                    PDict offers \<Rightarrow> Some (py_str rp (get offers ''price''))
                  | _ \<Rightarrow> None));
          origin_price' = raw_price;
          score' = py_str rp (py_or (get node ''ratingValue'') (get_default node ''rating'' (PStr '''')));
          sold' = py_str rp (py_or (py_or (get node ''sold'') (get node ''soldCount'')) (PStr ''''));
          link = py_or (get node ''url'') (PStr base_url)
      in case image' of
           Inl e \<Rightarrow> Inl e
         | Inr image'' \<Rightarrow>
             (case link of
                PStr l \<Rightarrow>
                  Inr \<lparr>title = title',
                       origin_price = clean_price origin_price',
                       sale_price = clean_price raw_price,
                       score = clean_score (Some score'),
                       sold = clean_sold (Some sold'),
                       product_link = normalize_product_link l,
                       img = image''\<rparr>
              | _ \<Rightarrow> Inl AttributeError))"

text \<open>
  \<^verbatim>\<open>_products_from_json_blob\<close>: the inner \<^verbatim>\<open>walk\<close> appends to \<open>products\<close> in
  pre-order; \<open>walk_values\<close> and \<open>walk_items\<close> are its two \<open>for\<close> loops. An exception
  ends the walk.
\<close>

fun walk :: "(pyval \<Rightarrow> string) \<Rightarrow> string \<Rightarrow> pyval \<Rightarrow> error + product list"
and walk_values :: "(pyval \<Rightarrow> string) \<Rightarrow> string \<Rightarrow> (string \<times> pyval) list \<Rightarrow> error + product list"
and walk_items :: "(pyval \<Rightarrow> string) \<Rightarrow> string \<Rightarrow> pyval list \<Rightarrow> error + product list" where
  "walk rp base_url (PDict node) =
     (if looks_like_product_dict node
      then (case product_from_dict rp node base_url of
              Inl e \<Rightarrow> Inl e
            | Inr p \<Rightarrow>
                (case walk_values rp base_url node of
                   Inl e \<Rightarrow> Inl e
                 | Inr ps \<Rightarrow> Inr (p # ps)))
      else walk_values rp base_url node)"
| "walk rp base_url (PList items) = walk_items rp base_url items"
| "walk rp base_url _ = Inr []"
| "walk_values rp base_url [] = Inr []"
| "walk_values rp base_url ((k, v) # kvs) =
     (case walk rp base_url v of
        Inl e \<Rightarrow> Inl e
      | Inr ps \<Rightarrow>
          (case walk_values rp base_url kvs of
             Inl e \<Rightarrow> Inl e
           | Inr qs \<Rightarrow> Inr (ps @ qs)))"
| "walk_items rp base_url [] = Inr []"
| "walk_items rp base_url (x # xs) =
     (case walk rp base_url x of
        Inl e \<Rightarrow> Inl e
      | Inr ps \<Rightarrow>
          (case walk_items rp base_url xs of
             Inl e \<Rightarrow> Inl e
           | Inr qs \<Rightarrow> Inr (ps @ qs)))"

definition products_from_json_blob ::
    "(pyval \<Rightarrow> string) \<Rightarrow> pyval \<Rightarrow> string \<Rightarrow> error + product list" where
  "products_from_json_blob rp data base_url = walk rp base_url data"

subsection \<open>Strategy B: product cards\<close>

text \<open>
  BeautifulSoup is a library; a card is represented by what \<^verbatim>\<open>_product_from_card\<close> asks
  of it: the stripped text of its first \<open>span\<close>, \<open>h3\<close> and \<open>h2\<close>, the stripped text
  of its first \<open>span\<close> whose string contains a dollar sign, the \<open>href\<close> of its first
  anchor that has one, and the \<open>src\<close> of its first \<open>img\<close> (None when there is no such
  element or attribute).
\<close>

record card =
  card_span :: "string option"
  card_h3 :: "string option"
  card_h2 :: "string option"
  card_price_span :: "string option"
  card_href :: "string option"
  card_img_src :: "string option"

definition product_from_card :: "card \<Rightarrow> string \<Rightarrow> product option" where
  "product_from_card c base_url =
     (let title' =
            (case card_span c of
               Some t \<Rightarrow> t
             | None \<Rightarrow>
                 (case card_h3 c of
                    Some t \<Rightarrow> t
                  | None \<Rightarrow> (case card_h2 c of Some t \<Rightarrow> t | None \<Rightarrow> '''')));
          price = (case card_price_span c of Some t \<Rightarrow> t | None \<Rightarrow> '''');
          link = (case card_href c of Some h \<Rightarrow> h | None \<Rightarrow> base_url);
          img' = (case card_img_src c of Some src \<Rightarrow> PStr src | None \<Rightarrow> PNone);
          score' = '''';
          sold' = ''''
      in if title' = [] \<and> price = [] then None
         else Some \<lparr>title = PStr title',
                    origin_price = None,
                    sale_price = clean_price (Some price),
                    score = clean_score (Some score'),
                    sold = clean_sold (Some sold'),
                    product_link = normalize_product_link link,
                    img = img'\<rparr>)"

subsection \<open>The listing page\<close>

text \<open>
  The parsed document, as \<^verbatim>\<open>_parse_listing_page\<close> reads it: the \<^verbatim>\<open>.string\<close> of every
  \<open>script\<close> element in document order (None when the element has no single string
  child), and the elements the two card selectors match.
\<close>

record page =
  scripts :: "string option list"
  product_anchors :: "card list"
  search_cards :: "card list"

text \<open>
  Strategy 1 of \<^verbatim>\<open>_parse_listing_page\<close>: the loop over the scripts. Only the call of
  \<^verbatim>\<open>_extract_json_from_script\<close> is inside the \<open>try\<close>, and only ValueError is caught.
\<close>

fun scripts_loop ::
    "(string \<Rightarrow> pyval option) \<Rightarrow> (pyval \<Rightarrow> string) \<Rightarrow> string \<Rightarrow>
     string option list \<Rightarrow> product list \<Rightarrow> error + product list" where
  \<open>scripts_loop loads rp url [] products = Inr products\<close>
| \<open>scripts_loop loads rp url (script # rest) products =
     (let script_text = (case script of None \<Rightarrow> '''' | Some t \<Rightarrow> t)
      in if script_text = [] then scripts_loop loads rp url rest products
         else if contains ''"product"'' (py_lower script_text) \<and>
                 contains ''"price"'' (py_lower script_text)
         then (case extract_json_from_script loads script_text of
                 Inl ValueError \<Rightarrow> scripts_loop loads rp url rest products
               | Inl e \<Rightarrow> Inl e
               | Inr data \<Rightarrow>
                   (case products_from_json_blob rp data url of
                      Inl e \<Rightarrow> Inl e
                    | Inr ps \<Rightarrow> scripts_loop loads rp url rest (products @ ps)))
         else scripts_loop loads rp url rest products)\<close>

definition strategy_a ::
    "(string \<Rightarrow> pyval option) \<Rightarrow> (pyval \<Rightarrow> string) \<Rightarrow> page \<Rightarrow> string \<Rightarrow> error + product list" where
  "strategy_a loads rp soup url = scripts_loop loads rp url (scripts soup) []"

text \<open>
  Strategy 2: the two selectors in their order, every matched card in document order,
  the cards that give a product appended.
\<close>

definition strategy_b :: "page \<Rightarrow> string \<Rightarrow> product list" where
  "strategy_b soup url =
     List.map_filter (\<lambda>c. product_from_card c url) (product_anchors soup @ search_cards soup)"

definition parse_listing_page ::
    "(string \<Rightarrow> pyval option) \<Rightarrow> (pyval \<Rightarrow> string) \<Rightarrow> page \<Rightarrow> string \<Rightarrow> error + product list" where
  "parse_listing_page loads rp soup url =
     (case strategy_a loads rp soup url of
        Inl e \<Rightarrow> Inl e
      | Inr products \<Rightarrow>
          Inr (dedupe (if products = [] then strategy_b soup url else products)))"

section \<open>utils/parser.py: the catalog shape\<close>

subsection \<open>Python's \<open>int()\<close>, \<open>float()\<close> and number formatting\<close>

text \<open>
  \<^verbatim>\<open>str.isdigit\<close> holds of the ten ASCII digits and of the superscripts U+00B2, U+00B3 and
  U+00B9; the number parsers accept the ASCII digits only.
\<close>

definition py_isdigit :: "char \<Rightarrow> bool" where
  "py_isdigit c =
     (let n = (of_char c :: nat) in (48 \<le> n \<and> n \<le> 57) \<or> n = 178 \<or> n = 179 \<or> n = 185)"

definition ascii_digit :: "char \<Rightarrow> bool" where
  "ascii_digit c = (let n = (of_char c :: nat) in 48 \<le> n \<and> n \<le> 57)"

definition digits_val :: "string \<Rightarrow> int" where
  "digits_val ds = foldl (\<lambda>a c. 10 * a + (of_char c - 48)) 0 ds"

text \<open>
  The grammar \<^verbatim>\<open>digitpart ::= digit (["_"] digit)*\<close> of Python's numeric literals, read
  greedily: the digits read (without the underscores) and the rest of the string.
\<close>

fun digitpart_rest :: "string \<Rightarrow> string \<times> string" where
  "digitpart_rest [] = ([], [])"
| "digitpart_rest [c] = (if ascii_digit c then ([c], []) else ([], [c]))"
| "digitpart_rest (c # d # cs) =
     (if ascii_digit c
      then (case digitpart_rest (d # cs) of (ds, r) \<Rightarrow> (c # ds, r))
      else if c = CHR ''_'' \<and> ascii_digit d
      then (case digitpart_rest cs of (ds, r) \<Rightarrow> (d # ds, r))
      else ([], c # d # cs))"

definition digitpart :: "string \<Rightarrow> (string \<times> string) option" where
  "digitpart s =
     (case s of
        [] \<Rightarrow> None
      | c # cs \<Rightarrow>
          if ascii_digit c
          then (case digitpart_rest cs of (ds, r) \<Rightarrow> Some (c # ds, r))
          else None)"

definition split_sign :: "string \<Rightarrow> bool \<times> string" where
  "split_sign s =
     (case s of
        [] \<Rightarrow> (False, [])
      | c # cs \<Rightarrow>
          if c = CHR ''-'' then (True, cs)
          else if c = CHR ''+'' then (False, cs)
          else (False, s))"

text \<open>
  The white space \<^verbatim>\<open>int(s)\<close> and \<^verbatim>\<open>float(s)\<close> remove around a number: U+0009 to U+000D,
  the space, U+0085 and U+00A0. (The separators U+001C to U+001F, which \<^verbatim>\<open>str.strip\<close>
  removes, are not among them.)
\<close>

definition num_isspace :: "char \<Rightarrow> bool" where
  "num_isspace c =
     (let n = (of_char c :: nat) in (9 \<le> n \<and> n \<le> 13) \<or> n = 32 \<or> n = 133 \<or> n = 160)"

definition num_strip :: "string \<Rightarrow> string" where
  "num_strip s = rev (dropWhile num_isspace (rev (dropWhile num_isspace s)))"

text \<open>
  \<^verbatim>\<open>int(s)\<close> on a string: white space stripped, a sign, a digit part; anything else is a
  ValueError. (The 4300-digit limit of recent Python versions is not modelled.)
\<close>

definition py_int_of_str :: "string \<Rightarrow> error + int" where
  "py_int_of_str s =
     (case split_sign (num_strip s) of
        (neg, body) \<Rightarrow>
          (case digitpart body of
             Some (ds, []) \<Rightarrow> Inr (if neg then - digits_val ds else digits_val ds)
           | _ \<Rightarrow> Inl ValueError))"

text \<open>\<^verbatim>\<open>int(v)\<close>: a float is truncated towards zero.\<close>

fun py_int :: "pyval \<Rightarrow> error + int" where
  "py_int (PInt i) = Inr i"
| "py_int (PBool b) = Inr (if b then 1 else 0)"
| "py_int (PFloat (Fin q)) = Inr (if 0 \<le> q then \<lfloor>q\<rfloor> else \<lceil>q\<rceil>)"
| "py_int (PFloat NaN) = Inl ValueError"
| "py_int (PFloat _) = Inl OverflowError"
| "py_int (PStr s) = py_int_of_str s"
| "py_int _ = Inl TypeError"

text \<open>Rounding to the nearest integer, a tie to the even one.\<close>

definition round_half_even :: "rat \<Rightarrow> int" where
  "round_half_even q =
     (let f = \<lfloor>q\<rfloor>; d = q - of_int f
      in if d < 1 / 2 then f else if 1 / 2 < d then f + 1 else if even f then f else f + 1)"

text \<open>
  Rounding a rational to the nearest double, a tie to the even significand. With
  \<open>a / b\<close> the magnitude in lowest terms, the exponent \<open>e\<close> is chosen so that the
  magnitude over \<open>2^e\<close> lies from \<open>2^52\<close> up to \<open>2^53\<close>, and not below \<open>-1074\<close>,
  the exponent of the subnormal numbers; the significand \<open>m\<close> is that quotient rounded.
  The result is infinite when \<open>m * 2^e\<close> reaches \<open>2^1024\<close>.
\<close>

function bit_length :: "int \<Rightarrow> int" where
  "bit_length n = (if n \<le> 0 then 0 else 1 + bit_length (n div 2))"
  by pat_completeness auto
termination
  by (relation "measure nat") auto

declare bit_length.simps [simp del]

definition pow2 :: "int \<Rightarrow> rat" where
  "pow2 e = (if 0 \<le> e then 2 ^ nat e else 1 / 2 ^ nat (- e))"

definition round_double :: "rat \<Rightarrow> pyfloat" where
  "round_double q =
     (if q = 0 then Fin 0
      else (case quotient_of \<bar>q\<bar> of
              (a, b) \<Rightarrow>
                (let e1 = bit_length a - bit_length b - 53;
                     e2 = (if \<bar>q\<bar> / pow2 e1 < 2 ^ 53 then e1 else e1 + 1);
                     e = max e2 (- 1074);
                     m = round_half_even (\<bar>q\<bar> / pow2 e)
                 in if 971 < e \<or> (e = 971 \<and> 2 ^ 53 \<le> m)
                    then (if 0 < q then PosInf else NegInf)
                    else Fin (if 0 < q then of_int m * pow2 e else - (of_int m * pow2 e)))))"

text \<open>
  \<^verbatim>\<open>float(i)\<close> on an int: an int of magnitude up to \<open>2^53\<close> is a double; a larger one
  is rounded, and the call raises OverflowError where the rounding is infinite.
\<close>

definition float_of_int :: "int \<Rightarrow> error + pyfloat" where
  "float_of_int i =
     (if \<bar>i\<bar> \<le> 2 ^ 53 then Inr (Fin (of_int i))
      else (case round_double (of_int i) of
              Fin q \<Rightarrow> Inr (Fin q)
            | _ \<Rightarrow> Inl OverflowError))"

text \<open>The value of the digits \<open>ip.fp\<close> times ten to the \<open>e\<close>.\<close>

definition decimal_value :: "string \<Rightarrow> string \<Rightarrow> int \<Rightarrow> rat" where
  "decimal_value ip fp e =
     (let m = of_int (digits_val (ip @ fp)); k = e - int (length fp)
      in if 0 \<le> k then m * 10 ^ nat k else m / 10 ^ nat (- k))"

definition exponent_part :: "string \<Rightarrow> string \<Rightarrow> string \<Rightarrow> rat option" where
  "exponent_part ip fp r =
     (case r of
        [] \<Rightarrow> Some (decimal_value ip fp 0)
      | c # r1 \<Rightarrow>
          if c = CHR ''e'' \<or> c = CHR ''E''
          then (case split_sign r1 of
                  (neg, r2) \<Rightarrow>
                    (case digitpart r2 of
                       Some (ds, []) \<Rightarrow>
                         Some (decimal_value ip fp
                           (if neg then - digits_val ds else digits_val ds))
                     | _ \<Rightarrow> None))
          else None)"

definition float_number :: "string \<Rightarrow> rat option" where
  "float_number body =
     (case digitpart body of
        Some (ip, r) \<Rightarrow>
          (case r of
             [] \<Rightarrow> exponent_part ip [] r
           | c # r1 \<Rightarrow>
               if c = CHR ''.''
               then (case digitpart r1 of
                       Some (fp, r2) \<Rightarrow> exponent_part ip fp r2
                     | None \<Rightarrow> exponent_part ip [] r1)
               else exponent_part ip [] r)
      | None \<Rightarrow>
          (case body of
             [] \<Rightarrow> None
           | c # r1 \<Rightarrow>
               if c = CHR ''.''
               then (case digitpart r1 of
                       Some (fp, r2) \<Rightarrow> exponent_part [] fp r2
                     | None \<Rightarrow> None)
               else None))"

text \<open>
  \<^verbatim>\<open>float(s)\<close> on a string: white space stripped, a sign, then \<open>inf\<close>, \<open>infinity\<close> or
  \<open>nan\<close> in any case, or a decimal number with an optional exponent, rounded to the
  nearest double.
\<close>

definition py_float_of_str :: "string \<Rightarrow> error + pyfloat" where
  "py_float_of_str s =
     (case split_sign (num_strip s) of
        (neg, body) \<Rightarrow>
          if py_lower body = ''inf'' \<or> py_lower body = ''infinity''
          then Inr (if neg then NegInf else PosInf)
          else if py_lower body = ''nan'' then Inr NaN
          else (case float_number body of
                  None \<Rightarrow> Inl ValueError
                | Some q \<Rightarrow> Inr (round_double (if neg then - q else q))))"

fun py_float :: "pyval \<Rightarrow> error + pyfloat" where
  "py_float (PFloat x) = Inr x"
| "py_float (PInt i) = float_of_int i"
| "py_float (PBool b) = Inr (Fin (if b then 1 else 0))"
| "py_float (PStr s) = py_float_of_str s"
| "py_float _ = Inl TypeError"

text \<open>\<open>pad w s\<close>: \<open>s\<close> with zeros in front up to the width \<open>w\<close>, as \<^verbatim>\<open>%0wd\<close> does.\<close>

definition pad :: "nat \<Rightarrow> string \<Rightarrow> string" where
  "pad w s = replicate (w - length s) (CHR ''0'') @ s"

text \<open>\<^verbatim>\<open>f"{x:.2f}"\<close> for a float \<open>x\<close>.\<close>

fun fmt_2f :: "pyfloat \<Rightarrow> string" where
  "fmt_2f NaN = ''nan''"
| "fmt_2f PosInf = ''inf''"
| "fmt_2f NegInf = ''-inf''"
| "fmt_2f (Fin q) =
     (let n = nat (round_half_even (\<bar>q\<bar> * 100));
          body = show_nat (n div 100) @ ''.'' @ pad 2 (show_nat (n mod 100))
      in if q < 0 then CHR ''-'' # body else body)"

subsection \<open>The field normalizers\<close>

text \<open>
  \<^verbatim>\<open>normalize_price\<close>. A bool is an int. \<^verbatim>\<open>float(digits)\<close> on the filtered string raises
  ValueError only, which is caught.
\<close>

definition normalize_price :: "(pyval \<Rightarrow> string) \<Rightarrow> pyval \<Rightarrow> error + pyfloat" where
  "normalize_price rp value =
     (case value of
        PNone \<Rightarrow> Inr (Fin 0)
      | PInt i \<Rightarrow> float_of_int i
      | PBool b \<Rightarrow> Inr (Fin (if b then 1 else 0))
      | PFloat x \<Rightarrow> Inr x
      | _ \<Rightarrow>
          (let s = py_str rp value;
               digits = filter (\<lambda>ch. py_isdigit ch \<or> ch = CHR ''.'' \<or> ch = CHR '','') s;
               digits = filter (\<lambda>ch. ch \<noteq> CHR '','') digits
           in case py_float_of_str digits of
                Inl e \<Rightarrow> Inr (Fin 0)
              | Inr x \<Rightarrow> Inr x))"

text \<open>
  \<^verbatim>\<open>str.upper\<close> on code points below 256. The sharp s becomes \<open>SS\<close>; the capitals of the
  micro sign and of y with diaeresis lie beyond U+00FF and the two letters are kept, which
  changes no comparison with an ASCII key.
\<close>

definition upper_char :: "char \<Rightarrow> string" where
  "upper_char c =
     (let n = (of_char c :: nat)
      in if (97 \<le> n \<and> n \<le> 122) \<or> (224 \<le> n \<and> n \<le> 254 \<and> n \<noteq> 247)
         then [char_of (n - 32)]
         else if n = 223 then ''SS'' else [c])"

definition py_upper :: "string \<Rightarrow> string" where
  "py_upper s = concat (map upper_char s)"

definition guess_currency_from_region :: "string option \<Rightarrow> string" where
  "guess_currency_from_region region =
     (let mapping =
            [(''US'', ''USD''), (''VN'', ''VND''), (''GB'', ''GBP''), (''EU'', ''EUR''),
             (''PK'', ''PKR''), (''ID'', ''IDR''), (''MY'', ''MYR''), (''TH'', ''THB''),
             (''PH'', ''PHP'')]
      in case region of
           None \<Rightarrow> ''USD''
         | Some r \<Rightarrow>
             if r = [] then ''USD''
             else (case map_of mapping (py_upper r) of None \<Rightarrow> ''USD'' | Some c \<Rightarrow> c))"

text \<open>
  \<^verbatim>\<open>datetime.utcfromtimestamp(x).isoformat()\<close>, from the library's documentation and
  CPython 3.11 on 64-bit Linux: the time stamp is rounded to microseconds (ties to even)
  and converted in the proleptic Gregorian calendar. The call raises ValueError on a NaN
  and OverflowError on an infinity; on a finite value it raises OverflowError when the
  seconds do not fit the 64-bit \<open>time_t\<close>, OSError when the C library's \<open>gmtime\<close>
  cannot hold the year (seconds before \<open>-67768040609740800\<close> or after
  \<open>67768036191676799\<close>), and ValueError when the year is not from 1 to 9999.
  \<open>civil_from_days\<close> gives year, month and day of a day number counted from 1970-01-01.
\<close>

definition civil_from_days :: "int \<Rightarrow> int \<times> int \<times> int" where
  "civil_from_days days =
     (let z = days + 719468;
          era = z div 146097;
          doe = z - era * 146097;
          yoe = (doe - doe div 1460 + doe div 36524 - doe div 146096) div 365;
          doy = doe - (365 * yoe + yoe div 4 - yoe div 100);
          mp = (5 * doy + 2) div 153;
          d = doy - (153 * mp + 2) div 5 + 1;
          m = (if mp < 10 then mp + 3 else mp - 9);
          y = yoe + era * 400 + (if m \<le> 2 then 1 else 0)
      in (y, m, d))"

definition utcfromtimestamp_isoformat :: "pyfloat \<Rightarrow> error + string" where
  "utcfromtimestamp_isoformat x =
     (case x of
        NaN \<Rightarrow> Inl ValueError
      | PosInf \<Rightarrow> Inl OverflowError
      | NegInf \<Rightarrow> Inl OverflowError
      | Fin q \<Rightarrow>
          (let total = round_half_even (q * 1000000);
               secs = total div 1000000;
               us = total mod 1000000
           in if secs < - (2 ^ 63) \<or> 2 ^ 63 \<le> secs then Inl OverflowError
              else if secs < - 67768040609740800 \<or> 67768036191676799 < secs then Inl OSError
              else if secs < - 62135596800 \<or> 253402300799 < secs then Inl ValueError
              else (case civil_from_days (secs div 86400) of
                      (y, m, d) \<Rightarrow>
                        (let sod = secs mod 86400;
                             two = (\<lambda>n. pad 2 (show_int n))
                         in Inr (pad 4 (show_int y) @ ''-'' @ two m @ ''-'' @ two d @ ''T'' @
                                 two (sod div 3600) @ '':'' @ two (sod mod 3600 div 60) @ '':'' @
                                 two (sod mod 60) @
                                 (if us = 0 then [] else ''.'' @ pad 6 (show_int us)))))))"

text \<open>
  \<^verbatim>\<open>to_iso8601\<close>. \<^verbatim>\<open>dateutil.parser.parse(dt).isoformat()\<close> is a library call and is the
  parameter \<open>parse_iso\<close>: \<open>None\<close> when it raises (every \<open>Exception\<close> is caught).
  \<^verbatim>\<open>
  if not dt:
      return None
  if isinstance(dt, (int, float)):
      return datetime.utcfromtimestamp(float(dt)).isoformat() + "Z"
  if isinstance(dt, str):
      try:
          return dtparser.parse(dt).isoformat()
      except Exception:
          return None
  if isinstance(dt, datetime):
      return dt.isoformat()
  return None
  \<close>
\<close>

definition to_iso8601 :: "(string \<Rightarrow> string option) \<Rightarrow> pyval \<Rightarrow> error + string option" where
  "to_iso8601 parse_iso dt =
     (if \<not> truthy dt then Inr None
      else (case dt of
              PInt i \<Rightarrow>
                (case py_float dt of
                   Inl e \<Rightarrow> Inl e
                 | Inr x \<Rightarrow>
                     (case utcfromtimestamp_isoformat x of
                        Inl e \<Rightarrow> Inl e
                      | Inr s \<Rightarrow> Inr (Some (s @ ''Z''))))
            | PBool b \<Rightarrow>
                (case py_float dt of
                   Inl e \<Rightarrow> Inl e
                 | Inr x \<Rightarrow>
                     (case utcfromtimestamp_isoformat x of
                        Inl e \<Rightarrow> Inl e
                      | Inr s \<Rightarrow> Inr (Some (s @ ''Z''))))
            | PFloat f \<Rightarrow>
                (case py_float dt of
                   Inl e \<Rightarrow> Inl e
                 | Inr x \<Rightarrow>
                     (case utcfromtimestamp_isoformat x of
                        Inl e \<Rightarrow> Inl e
                      | Inr s \<Rightarrow> Inr (Some (s @ ''Z''))))
            | PStr s \<Rightarrow> Inr (parse_iso s)
            | PDatetime t \<Rightarrow> Inr (Some t)
            | _ \<Rightarrow> Inr None))"

subsection \<open>The canonical mapper\<close>

text \<open>
  \<^verbatim>\<open>images[0] if images else None\<close>, after a string has been promoted to a one-element
  list: indexing an int, a float or a bool is a TypeError, indexing a dict (whose keys are
  strings) with 0 a KeyError.
\<close>

definition first_image :: "pyval \<Rightarrow> error + pyval" where
  "first_image images =
     (if \<not> truthy images then Inr PNone
      else (case images of
              PList xs \<Rightarrow> (case xs of [] \<Rightarrow> Inr PNone | x # _ \<Rightarrow> Inr x)
            | PDict kvs \<Rightarrow> Inl KeyError
            | _ \<Rightarrow> Inl TypeError))"

text \<open>
  \<^verbatim>\<open>map_product\<close>. The result is the dict literal of the source, its entries evaluated in
  the order written; the first exception ends the evaluation.
  \<^verbatim>\<open>
  currency = raw.get("currency") or guess_currency_from_region(region)
  images = raw.get("img") or raw.get("images") or []
  if isinstance(images, str):
      images = [images]
  return {
      "product_id": str(raw.get("product_id") or raw.get("id") or ""),
      "title": raw.get("title") or raw.get("name") or "",
      "cover": raw.get("cover") or (images[0] if images else None),
      "img": images,
      "price": normalize_price(raw.get("price") or raw.get("min_price") or 0),
      "currency": currency,
      "format_price": raw.get("format_price")
          or f"{normalize_price(raw.get('price')):.2f} {currency}",
      "discount": raw.get("discount"),
      "warehouse_region": raw.get("warehouse_region") or raw.get("ship_from"),
      "product_rating": str(raw.get("product_rating") or raw.get("rating") or ""),
      "sold_count": int(raw.get("sold_count") or raw.get("sold") or 0),
      "review_count": int(raw.get("review_count") or raw.get("reviews") or 0),
      "seller_name": raw.get("seller_name") or raw.get("shop_name") or "",
      "seller_id": str(raw.get("seller_id") or raw.get("shop_id") or ""),
      "promotion_labels": raw.get("promotion_labels") or raw.get("badges") or [],
      "created_at": to_iso8601(raw.get("created_at")),
      "last_seen_at": to_iso8601(raw.get("last_seen_at")),
      "_source": raw.get("_source") or "mock",
  }
  \<close>
\<close>

definition opt_str :: "string option \<Rightarrow> pyval" where
  "opt_str s = (case s of None \<Rightarrow> PNone | Some t \<Rightarrow> PStr t)"

definition map_product ::
    "(pyval \<Rightarrow> string) \<Rightarrow> (string \<Rightarrow> string option) \<Rightarrow>
     (string \<times> pyval) list \<Rightarrow> string option \<Rightarrow> error + (string \<times> pyval) list" where
  "map_product rp parse_iso raw region =
     (let currency = py_or (get raw ''currency'') (PStr (guess_currency_from_region region));
          images = py_or (py_or (get raw ''img'') (get raw ''images'')) (PList []);
          images = (case images of PStr s \<Rightarrow> PList [PStr s] | _ \<Rightarrow> images)
      in case (if truthy (get raw ''cover'') then Inr (get raw ''cover'') else first_image images) of
           Inl e \<Rightarrow> Inl e
         | Inr cover \<Rightarrow>
        (case normalize_price rp (py_or (py_or (get raw ''price'') (get raw ''min_price'')) (PInt 0)) of
           Inl e \<Rightarrow> Inl e
         | Inr price \<Rightarrow>
        (case (if truthy (get raw ''format_price'') then Inr (get raw ''format_price'')
               else (case normalize_price rp (get raw ''price'') of
                       Inl e \<Rightarrow> Inl e
                     | Inr p \<Rightarrow> Inr (PStr (fmt_2f p @ '' '' @ py_str rp currency)))) of
           Inl e \<Rightarrow> Inl e
         | Inr format_price \<Rightarrow>
        (case py_int (py_or (py_or (get raw ''sold_count'') (get raw ''sold'')) (PInt 0)) of
           Inl e \<Rightarrow> Inl e
         | Inr sold_count \<Rightarrow>
        (case py_int (py_or (py_or (get raw ''review_count'') (get raw ''reviews'')) (PInt 0)) of
           Inl e \<Rightarrow> Inl e
         | Inr review_count \<Rightarrow>
        (case to_iso8601 parse_iso (get raw ''created_at'') of
           Inl e \<Rightarrow> Inl e
         | Inr created_at \<Rightarrow>
        (case to_iso8601 parse_iso (get raw ''last_seen_at'') of
           Inl e \<Rightarrow> Inl e
         | Inr last_seen_at \<Rightarrow>
             Inr [(''product_id'',
                    PStr (py_str rp (py_or (py_or (get raw ''product_id'') (get raw ''id'')) (PStr '''')))),
                  (''title'', py_or (py_or (get raw ''title'') (get raw ''name'')) (PStr '''')),
                  (''cover'', cover),
                  (''img'', images),
                  (''price'', PFloat price),
                  (''currency'', currency),
                  (''format_price'', format_price),
                  (''discount'', get raw ''discount''),
                  (''warehouse_region'', py_or (get raw ''warehouse_region'') (get raw ''ship_from'')),
                  (''product_rating'',
                    PStr (py_str rp (py_or (py_or (get raw ''product_rating'') (get raw ''rating'')) (PStr '''')))),
                  (''sold_count'', PInt sold_count),
                  (''review_count'', PInt review_count),
                  (''seller_name'', py_or (py_or (get raw ''seller_name'') (get raw ''shop_name'')) (PStr '''')),
                  (''seller_id'',
                    PStr (py_str rp (py_or (py_or (get raw ''seller_id'') (get raw ''shop_id'')) (PStr '''')))),
                  (''promotion_labels'',
                    py_or (py_or (get raw ''promotion_labels'') (get raw ''badges'')) (PList [])),
                  (''created_at'', opt_str created_at),
                  (''last_seen_at'', opt_str last_seen_at),
                  (''_source'', py_or (get raw ''_source'') (PStr ''mock''))])))))))"

section \<open>services/scraper.py: sorting and the mock generator\<close>

subsection \<open>\<open>sorted\<close> with a key\<close>

text \<open>
  \<^verbatim>\<open>sorted(items, key=f, reverse=r)\<close> computes the key of every item first, in order (an
  exception of \<open>f\<close> ends the call), and then sorts stably, comparing keys with \<open><\<close>
  only. \<open>sorted_by\<close> is the stable insertion sort; with \<open>reverse=True\<close> the list is
  reversed, sorted and reversed again, which keeps equal keys in their original order.
  (Where keys are not totally ordered, as with a NaN, the order Python produces is that
  of its own algorithm; the model then says only that a list is returned.)
\<close>

fun keys_of :: "('a \<Rightarrow> error + 'k) \<Rightarrow> 'a list \<Rightarrow> error + ('k \<times> 'a) list" where
  "keys_of f [] = Inr []"
| "keys_of f (x # xs) =
     (case f x of
        Inl e \<Rightarrow> Inl e
      | Inr k \<Rightarrow>
          (case keys_of f xs of
             Inl e \<Rightarrow> Inl e
           | Inr ks \<Rightarrow> Inr ((k, x) # ks)))"

fun insort_by :: "('k \<Rightarrow> 'k \<Rightarrow> bool) \<Rightarrow> 'k \<times> 'a \<Rightarrow> ('k \<times> 'a) list \<Rightarrow> ('k \<times> 'a) list" where
  "insort_by lt x [] = [x]"
| "insort_by lt x (y # ys) =
     (if lt (fst y) (fst x) then y # insort_by lt x ys else x # y # ys)"

definition sorted_by :: "('k \<Rightarrow> 'k \<Rightarrow> bool) \<Rightarrow> ('k \<times> 'a) list \<Rightarrow> ('k \<times> 'a) list" where
  "sorted_by lt kxs = foldr (insort_by lt) kxs []"

definition py_sorted ::
    "('k \<Rightarrow> 'k \<Rightarrow> bool) \<Rightarrow> ('a \<Rightarrow> error + 'k) \<Rightarrow> bool \<Rightarrow> 'a list \<Rightarrow> error + 'a list" where
  "py_sorted lt f reverse items =
     (case keys_of f items of
        Inl e \<Rightarrow> Inl e
      | Inr kxs \<Rightarrow>
          Inr (map snd (if reverse then rev (sorted_by lt (rev kxs)) else sorted_by lt kxs)))"

text \<open>\<open>a < b\<close> on floats: false when either is a NaN.\<close>

fun float_less :: "pyfloat \<Rightarrow> pyfloat \<Rightarrow> bool" where
  "float_less NaN b = False"
| "float_less a NaN = False"
| "float_less (Fin a) (Fin b) = (a < b)"
| "float_less (Fin a) PosInf = True"
| "float_less (Fin a) NegInf = False"
| "float_less PosInf b = False"
| "float_less NegInf NegInf = False"
| "float_less NegInf b = True"

text \<open>
  \<^verbatim>\<open>_apply_sort\<close>:
  \<^verbatim>\<open>
  if sort == "PRICE_ASC":
      return sorted(items, key=lambda x: float(x.get("price", 0)))
  if sort == "PRICE_DESC":
      return sorted(items, key=lambda x: float(x.get("price", 0)), reverse=True)
  if sort == "BEST_SELLERS":
      return sorted(items, key=lambda x: int(x.get("sold_count", 0)), reverse=True)
  return items
  \<close>
\<close>

definition price_key :: "(string \<times> pyval) list \<Rightarrow> error + pyfloat" where
  "price_key x = py_float (get_default x ''price'' (PInt 0))"

definition sold_key :: "(string \<times> pyval) list \<Rightarrow> error + int" where
  "sold_key x = py_int (get_default x ''sold_count'' (PInt 0))"

definition apply_sort ::
    "(string \<times> pyval) list list \<Rightarrow> string \<Rightarrow> error + (string \<times> pyval) list list" where
  "apply_sort items sort_mode =
     (if sort_mode = ''PRICE_ASC'' then py_sorted float_less price_key False items
      else if sort_mode = ''PRICE_DESC'' then py_sorted float_less price_key True items
      else if sort_mode = ''BEST_SELLERS'' then py_sorted (<) sold_key True items
      else Inr items)"

subsection \<open>The mock generator\<close>

text \<open>
  \<^verbatim>\<open>random.Random\<close> is the standard library's generator. Its operations are parameters:
  \<open>rng_seed\<close> is \<^verbatim>\<open>random.Random(seed)\<close> for a string seed, and every draw takes the
  generator's state and returns the value drawn and the next state. \<open>rng_choice n\<close> draws
  an index into a sequence of length \<open>n\<close>, \<open>rng_choices n k\<close> draws \<open>k\<close> of them.
\<close>

record 's rng =
  rng_seed :: "string \<Rightarrow> 's"
  rng_randint :: "int \<Rightarrow> int \<Rightarrow> 's \<Rightarrow> int \<times> 's"
  rng_uniform :: "rat \<Rightarrow> rat \<Rightarrow> 's \<Rightarrow> pyfloat \<times> 's"
  rng_choice :: "nat \<Rightarrow> 's \<Rightarrow> nat \<times> 's"
  rng_choices :: "nat \<Rightarrow> nat \<Rightarrow> 's \<Rightarrow> nat list \<times> 's"

text \<open>
  \<^verbatim>\<open>round(x, n)\<close> on a float: the value rounded to \<open>n\<close> decimals, ties to even, and
  that decimal rounded to the nearest double.
\<close>

fun py_round :: "pyfloat \<Rightarrow> nat \<Rightarrow> pyfloat" where
  "py_round (Fin q) n = round_double (of_int (round_half_even (q * 10 ^ n)) / 10 ^ n)"
| "py_round x n = x"

text \<open>\<open>pick xs i\<close>: the element of a non-empty sequence at a drawn index.\<close>

definition pick :: "'a list \<Rightarrow> nat \<Rightarrow> 'a" where
  "pick xs i = xs ! (i mod length xs)"

definition digits :: string where
  "digits = ''0123456789''"

definition ascii_lowercase :: string where
  "ascii_lowercase = ''abcdefghijklmnopqrstuvwxyz''"

text \<open>\<^verbatim>\<open>x or default\<close> for an optional string.\<close>

definition str_or :: "string option \<Rightarrow> string \<Rightarrow> string" where
  "str_or x dflt = (case x of None \<Rightarrow> dflt | Some s \<Rightarrow> if s = [] then dflt else s)"

text \<open>
  One iteration of the loop of \<^verbatim>\<open>_mock_products\<close>: the draws in the order of the source
  (the entries of the dict literal are evaluated in the order written), the record
  yielded and the generator's next state.
\<close>

definition mock_product ::
    "'s rng \<Rightarrow> string option \<Rightarrow> string option \<Rightarrow> string \<Rightarrow> nat \<Rightarrow> 's \<Rightarrow>
     (string \<times> pyval) list \<times> 's" where
  "mock_product R keyword region currency i rnd0 =
     (let labels_pool =
            [PList [PStr ''Flash Sale''], PList [PStr ''Top Choice Star Shop''],
             PList [PStr ''Editor Pick''], PList [], PList [PStr ''Limited Offer'']];
          (sold, rnd1) = rng_randint R 10 50000 rnd0;
          (u, rnd2) = rng_uniform R 1 300 rnd1;
          price = py_round u 2;
          (di, rnd3) = rng_choice R 5 rnd2;
          discount = pick [PNone, PStr ''10%'', PStr ''15%'', PStr ''25%'', PStr ''40%''] di;
          (ps, rnd4) = rng_choices R (length digits) 18 rnd3;
          pid = map (pick digits) ps;
          (hs, rnd5) = rng_choices R (length (ascii_lowercase @ digits)) 8 rnd4;
          img_hash = map (pick (ascii_lowercase @ digits)) hs;
          title_kw = take 20 (str_or keyword ''Trending'');
          (r, rnd6) = rng_uniform R (16 / 5) 5 rnd5;
          (reviews, rnd7) = rng_randint R 0 (max 10 (sold div 5)) rnd6;
          (ss, rnd8) = rng_choices R (length digits) 10 rnd7;
          (li, rnd9) = rng_choice R (length labels_pool) rnd8
      in ([(''product_id'', PStr pid),
           (''title'', PStr (title_kw @ '' Product '' @ show_nat (i + 1))),
           (''cover'', PStr (''https://picsum.photos/seed/'' @ img_hash @ ''/400/400.webp'')),
           (''img'',
             PList [PStr (''https://picsum.photos/seed/'' @ img_hash @ ''a/800/800.webp''),
                    PStr (''https://picsum.photos/seed/'' @ img_hash @ ''b/800/800.webp'')]),
           (''price'', PFloat price),
           (''currency'', PStr currency),
           (''format_price'', PNone),
           (''discount'', discount),
           (''warehouse_region'', PStr (str_or region ''US'')),
           (''product_rating'', PFloat (py_round r 1)),
           (''sold_count'', PInt sold),
           (''review_count'', PInt reviews),
           (''seller_name'', PStr (title_kw @ '' Seller'')),
           (''seller_id'', PStr (map (pick digits) ss)),
           (''promotion_labels'', pick labels_pool li),
           (''_source'', PStr ''mock'')],
          rnd9))"

text \<open>\<^verbatim>\<open>for i in range(limit)\<close>, from \<open>i\<close> on, \<open>n\<close> iterations left.\<close>

fun mock_loop ::
    "'s rng \<Rightarrow> string option \<Rightarrow> string option \<Rightarrow> string \<Rightarrow> nat \<Rightarrow> nat \<Rightarrow> 's \<Rightarrow>
     (string \<times> pyval) list list" where
  "mock_loop R keyword region currency i 0 rnd = []"
| "mock_loop R keyword region currency i (Suc n) rnd =
     (case mock_product R keyword region currency i rnd of
        (p, rnd') \<Rightarrow> p # mock_loop R keyword region currency (Suc i) n rnd')"

text \<open>
  \<^verbatim>\<open>_mock_products\<close>. The method builds its own generator from the seed string and does
  not touch the generator of the \<^verbatim>\<open>random\<close> module, which is process-wide state that
  \<^verbatim>\<open>_fetch_url\<close> draws from: that state \<open>g\<close> is passed in and returned, as the call
  leaves it.
\<close>

definition seed_basis :: "string option \<Rightarrow> bool \<Rightarrow> string option \<Rightarrow> string" where
  "seed_basis keyword is_trending region =
     str_or keyword ''trending'' @ ''|'' @ str_or region ''US'' @ ''|'' @
     (if is_trending then ''1'' else ''0'')"

definition mock_products ::
    "'s rng \<Rightarrow> 's \<Rightarrow> string option \<Rightarrow> bool \<Rightarrow> string option \<Rightarrow> int \<Rightarrow>
     (string \<times> pyval) list list \<times> 's" where
  "mock_products R g keyword is_trending region limit =
     (let rnd = rng_seed R (seed_basis keyword is_trending region);
          currency = guess_currency_from_region region
      in (mock_loop R keyword region currency 0 (nat limit) rnd, g))"

section \<open>utils/validator.py: the search request\<close>

text \<open>
  The payload, after JSON decoding, with values of the annotated types: a key is absent or
  given; for an \<open>Optional\<close> field the given value may be None. (Pydantic's coercions
  of other types are outside the model.)
\<close>

datatype 'a field = Absent | Given 'a

record payload =
  p_keyword :: "string option field"
  p_isTrending :: "bool field"
  p_region :: "string option field"
  p_sortType :: "string field"
  p_limit :: "int field"
  p_startUrls :: "string list option field"

record input_model =
  keyword :: "string option"
  isTrending :: bool
  region :: "string option"
  sortType :: string
  limit :: int
  startUrls :: "string list option"

text \<open>\<^verbatim>\<open>str.isalpha\<close> on code points below 256.\<close>

definition py_isalpha_char :: "char \<Rightarrow> bool" where
  "py_isalpha_char c =
     (let n = (of_char c :: nat)
      in (65 \<le> n \<and> n \<le> 90) \<or> (97 \<le> n \<and> n \<le> 122) \<or> n = 170 \<or> n = 181 \<or> n = 186 \<or>
         (192 \<le> n \<and> n \<le> 255 \<and> n \<noteq> 215 \<and> n \<noteq> 247))"

text \<open>
  \<^verbatim>\<open>validate_region\<close>:
  \<^verbatim>\<open>
  if v is None:
      return v
  if not isinstance(v, str) or len(v) != 2 or not v.isalpha():
      raise ValueError("region must be a two-letter ISO country code")
  return v.upper()
  \<close>
\<close>

definition validate_region :: "string option \<Rightarrow> error + string option" where
  "validate_region v =
     (case v of
        None \<Rightarrow> Inr None
      | Some s \<Rightarrow>
          if length s \<noteq> 2 \<or> \<not> (s \<noteq> [] \<and> list_all py_isalpha_char s) then Inl ValueError
          else Inr (Some (py_upper s)))"

text \<open>
  \<^verbatim>\<open>validate_keyword(cls, v, info)\<close>; \<open>data\<close> is \<^verbatim>\<open>info.data\<close>:
  \<^verbatim>\<open>
  start_urls = data.get("startUrls")
  is_trending = data.get("isTrending", False)
  if not start_urls and not is_trending and not v:
      raise ValueError("keyword is required when startUrls is not provided and ...")
  return v.strip() if isinstance(v, str) else v
  \<close>
\<close>

definition validate_keyword :: "string option \<Rightarrow> (string \<times> pyval) list \<Rightarrow> error + string option" where
  "validate_keyword v data =
     (let start_urls = get data ''startUrls'';
          is_trending = get_default data ''isTrending'' (PBool False)
      in if \<not> truthy start_urls \<and> \<not> truthy is_trending \<and> (v = None \<or> v = Some [])
         then Inl ValueError
         else Inr (map_option py_strip v))"

text \<open>
  \<^verbatim>\<open>InputModel.model_validate\<close>, from pydantic's documentation. The fields are validated
  in the order of their declaration: \<open>keyword\<close>, \<open>isTrending\<close>, \<open>region\<close>,
  \<open>sortType\<close>, \<open>limit\<close>, \<open>startUrls\<close>. A field validator is called for a given
  value only; an absent key takes the default without validation. \<^verbatim>\<open>info.data\<close> holds
  the fields validated before the current one: for \<open>keyword\<close>, the first field, it is
  empty. The errors of all fields are collected and one ValidationError is raised.
\<close>

definition model_validate :: "payload \<Rightarrow> error + input_model" where
  "model_validate p =
     (let data = [];
          r_keyword =
            (case p_keyword p of Absent \<Rightarrow> Inr None | Given v \<Rightarrow> validate_keyword v data);
          v_isTrending = (case p_isTrending p of Absent \<Rightarrow> False | Given b \<Rightarrow> b);
          r_region = (case p_region p of Absent \<Rightarrow> Inr None | Given v \<Rightarrow> validate_region v);
          r_sortType =
            (case p_sortType p of
               Absent \<Rightarrow> Inr ''RELEVANCE''
             | Given s \<Rightarrow>
                 if s \<in> set [''PRICE_ASC'', ''PRICE_DESC'', ''BEST_SELLERS'', ''RELEVANCE'']
                 then Inr s else Inl ValidationError);
          r_limit =
            (case p_limit p of
               Absent \<Rightarrow> Inr 50
             | Given n \<Rightarrow> if 1 \<le> n \<and> n \<le> 2000 then Inr n else Inl ValidationError);
          v_startUrls = (case p_startUrls p of Absent \<Rightarrow> None | Given v \<Rightarrow> v)
      in case (r_keyword, r_region, r_sortType, r_limit) of
           (Inr k, Inr rg, Inr st, Inr lm) \<Rightarrow>
             Inr \<lparr>keyword = k, isTrending = v_isTrending, region = rg, sortType = st,
                  limit = lm, startUrls = v_startUrls\<rparr>
         | _ \<Rightarrow> Inl ValidationError)"

text \<open>
  \<^verbatim>\<open>validate_input\<close>:
  \<^verbatim>\<open>
  try:
      return InputModel.model_validate(payload or {})
  except ValidationError as e:
      raise ValidationError(e.errors()) from None
  \<close>
  The handler calls \<^verbatim>\<open>ValidationError(e.errors())\<close> to build the exception it means to
  raise. Pydantic's ValidationError has no constructor that can be called so: the call
  itself raises TypeError, and TypeError is what leaves \<^verbatim>\<open>validate_input\<close> for a
  rejected payload. (\<^verbatim>\<open>payload or {}\<close> is the payload: an empty payload is \<open>{}\<close>.)
\<close>

definition validate_input :: "payload \<Rightarrow> error + input_model" where
  "validate_input p =
     (case model_validate p of
        Inl ValidationError \<Rightarrow> Inl TypeError
      | Inl e \<Rightarrow> Inl e
      | Inr m \<Rightarrow> Inr m)"

text \<open>The payload \<open>{}\<close>.\<close>

definition empty_payload :: payload where
  "empty_payload =
     \<lparr>p_keyword = Absent, p_isTrending = Absent, p_region = Absent, p_sortType = Absent,
      p_limit = Absent, p_startUrls = Absent\<rparr>"

section \<open>Example documents\<close>

text \<open>
  The examples below apply the parser parameter to few strings. \<open>loads_example\<close> is
  \<^verbatim>\<open>json.loads\<close> on those: it returns what \<^verbatim>\<open>json.loads\<close> returns on the two documents
  it knows, and \<open>None\<close> elsewhere; an example uses it only on strings on which the two
  agree (\<^verbatim>\<open>json.loads\<close> raises on a document followed by further text).
\<close>

definition loads_example :: "string \<Rightarrow> pyval option" where
  \<open>loads_example s =
     (if s = ''{"a": 1}'' then Some (PDict [(''a'', PInt 1)])
      else if s = ''{"product":[{"title":"Widget","price":"$9.99"}]}''
      then Some (PDict [(''product'',
             PList [PDict [(''title'', PStr ''Widget''), (''price'', PStr ''$9.99'')]])])
      else None)\<close>

text \<open>
  A listing page with one script block holding a product and one product card; the
  record the script block gives at the address \<^verbatim>\<open>https://shop.example/list\<close>; the
  record the card gives.
\<close>

definition example_page :: page where
  \<open>example_page =
     \<lparr>scripts = [None, Some ''{"product":[{"title":"Widget","price":"$9.99"}]}''],
      product_anchors =
        [\<lparr>card_span = Some ''Card'', card_h3 = None, card_h2 = None,
          card_price_span = Some ''$1'', card_href = Some ''/product/7'',
          card_img_src = None\<rparr>],
      search_cards = []\<rparr>\<close>

definition widget :: product where
  "widget =
     \<lparr>title = PStr ''Widget'', origin_price = Some ''$9.99'', sale_price = Some ''$9.99'',
      score = None, sold = None, product_link = ''https://shop.example/list'', img = PNone\<rparr>"

definition card_record :: product where
  "card_record =
     \<lparr>title = PStr ''Card'', origin_price = None, sale_price = Some ''$1'',
      score = None, sold = None, product_link = ''/product/7'', img = PNone\<rparr>"

section \<open>Properties of the de-duplication\<close>

lemma length_first_per_key: "length (first_per_key ps) \<le> length ps"
proof (induction ps rule: first_per_key.induct)
  case 1
  show ?case by simp
next
  case (2 p ps)
  have "length (filter (\<lambda>q. product_link q \<noteq> product_link p) ps) \<le> length ps"
    by simp
  with 2 have "length (first_per_key (filter (\<lambda>q. product_link q \<noteq> product_link p) ps)) \<le> length ps"
    by (rule order_trans)
  then show ?case by simp
qed

lemma subseq_first_per_key: "subseq (first_per_key ps) ps"
proof (induction ps rule: first_per_key.induct)
  case 1
  show ?case by simp
next
  case (2 p ps)
  have "subseq (filter (\<lambda>q. product_link q \<noteq> product_link p) ps) ps"
    by simp
  with 2 have "subseq (first_per_key (filter (\<lambda>q. product_link q \<noteq> product_link p) ps)) ps"
    by (rule subseq_order.order_trans)
  then show ?case by simp
qed

lemma filter_first_per_key:
  "filter (\<lambda>q. product_link q \<noteq> k) (first_per_key ps) =
   first_per_key (filter (\<lambda>q. product_link q \<noteq> k) ps)"
proof (induction ps rule: first_per_key.induct)
  case 1
  show ?case by simp
next
  case (2 p ps)
  have swap: "filter (\<lambda>q. product_link q \<noteq> k) (filter (\<lambda>q. product_link q \<noteq> product_link p) ps) =
      filter (\<lambda>q. product_link q \<noteq> product_link p) (filter (\<lambda>q. product_link q \<noteq> k) ps)"
    by (simp add: conj_commute)
  show ?case
  proof (cases "product_link p = k")
    case True
    with 2 show ?thesis by simp
  next
    case False
    with 2 swap show ?thesis by simp
  qed
qed

lemma keys_first_per_key: "product_link ` set (first_per_key ps) = product_link ` set ps"
proof (induction ps rule: first_per_key.induct)
  case 1
  show ?case by simp
next
  case (2 p ps)
  then show ?case by auto
qed

lemma distinct_first_per_key: "distinct (map product_link (first_per_key ps))"
proof (induction ps rule: first_per_key.induct)
  case 1
  show ?case by simp
next
  case (2 p ps)
  have "product_link p \<notin> product_link ` set (filter (\<lambda>q. product_link q \<noteq> product_link p) ps)"
    by auto
  then have "product_link p \<notin> product_link ` set (first_per_key (filter (\<lambda>q. product_link q \<noteq> product_link p) ps))"
    unfolding keys_first_per_key .
  with 2 show ?case by simp
qed

lemma first_per_key_idem: "first_per_key (first_per_key ps) = first_per_key ps"
proof (induction ps rule: first_per_key.induct)
  case 1
  show ?case by simp
next
  case (2 p ps)
  then show ?case by (simp add: filter_first_per_key)
qed

lemma find_filter_other_key:
  "k' \<noteq> k \<Longrightarrow>
   find (\<lambda>r. product_link r = k') (filter (\<lambda>r. product_link r \<noteq> k) ps) =
   find (\<lambda>r. product_link r = k') ps"
  by (induction ps) auto

lemma first_per_key_is_first:
  "q \<in> set (first_per_key ps) \<Longrightarrow> find (\<lambda>r. product_link r = product_link q) ps = Some q"
proof (induction ps rule: first_per_key.induct)
  case 1
  then show ?case by simp
next
  case (2 p ps)
  show ?case
  proof (cases "q = p")
    case True
    then show ?thesis by simp
  next
    case False
    with 2(2) have mem: "q \<in> set (first_per_key (filter (\<lambda>r. product_link r \<noteq> product_link p) ps))"
      by simp
    then have "product_link q \<in> product_link ` set (filter (\<lambda>r. product_link r \<noteq> product_link p) ps)"
      using keys_first_per_key by blast
    then have ne: "product_link q \<noteq> product_link p" by auto
    from 2(1) mem have "find (\<lambda>r. product_link r = product_link q)
        (filter (\<lambda>r. product_link r \<noteq> product_link p) ps) = Some q" .
    with ne have "find (\<lambda>r. product_link r = product_link q) ps = Some q"
      by (simp add: find_filter_other_key)
    with ne show ?thesis by auto
  qed
qed

lemma dedupe_loop_first_per_key:
  "map snd (dedupe_loop unique ps) =
   map snd unique @ first_per_key (filter (\<lambda>q. product_link q \<notin> fst ` set unique) ps)"
proof (induction ps arbitrary: unique)
  case Nil
  show ?case by simp
next
  case (Cons p ps)
  show ?case
  proof (cases "product_link p \<in> fst ` set unique")
    case True
    then obtain y where "map_of unique (product_link p) = Some y"
      by (cases "map_of unique (product_link p)") (auto simp: map_of_eq_None_iff)
    with True Cons [of unique] show ?thesis by simp
  next
    case False
    then have none: "map_of unique (product_link p) = None"
      by (simp add: map_of_eq_None_iff)
    have "filter (\<lambda>q. product_link q \<notin> fst ` set (unique @ [(product_link p, p)])) ps =
        filter (\<lambda>q. product_link q \<noteq> product_link p) (filter (\<lambda>q. product_link q \<notin> fst ` set unique) ps)"
      by (auto intro: filter_cong)
    with False none Cons [of "unique @ [(product_link p, p)]"] show ?thesis by simp
  qed
qed

lemma dedupe_first_per_key: "dedupe ps = first_per_key ps"
  by (simp add: dedupe_def dedupe_loop_first_per_key)

text \<open>
  C7. De-duplication by \<open>product_link\<close> (the link was normalised when the record was
  built) keeps, for each key, the first record carrying it, in the order of the input:
  the result is the specification's \<open>first_per_key\<close>, a subsequence of the input whose
  keys are distinct and are all the keys of the input, each record being the first of the
  input with its key. Running it twice changes nothing, and it never returns more records
  than it got.
\<close>

theorem dedupe_first_seen:
  "dedupe X = first_per_key X \<and>
   subseq (dedupe X) X \<and>
   distinct (map product_link (dedupe X)) \<and>
   product_link ` set (dedupe X) = product_link ` set X \<and>
   (\<forall>p \<in> set (dedupe X). find (\<lambda>r. product_link r = product_link p) X = Some p) \<and>
   dedupe (dedupe X) = dedupe X \<and>
   length (dedupe X) \<le> length X"
  by (simp add: dedupe_first_per_key subseq_first_per_key distinct_first_per_key
      keys_first_per_key first_per_key_is_first first_per_key_idem length_first_per_key)

theorem dedupe_first_seen_witness:
  "dedupe
     [\<lparr>title = PStr ''Mug'', origin_price = None, sale_price = Some ''$4'', score = None,
        sold = None, product_link = ''/product/1'', img = PNone\<rparr>,
      \<lparr>title = PStr ''Cup'', origin_price = None, sale_price = Some ''$3'', score = None,
        sold = None, product_link = ''/product/2'', img = PNone\<rparr>,
      \<lparr>title = PStr ''Mug again'', origin_price = None, sale_price = Some ''$5'', score = None,
        sold = None, product_link = ''/product/1'', img = PNone\<rparr>] =
     [\<lparr>title = PStr ''Mug'', origin_price = None, sale_price = Some ''$4'', score = None,
        sold = None, product_link = ''/product/1'', img = PNone\<rparr>,
      \<lparr>title = PStr ''Cup'', origin_price = None, sale_price = Some ''$3'', score = None,
        sold = None, product_link = ''/product/2'', img = PNone\<rparr>]"
  using dedupe_first_seen
    [of "[\<lparr>title = PStr ''Mug'', origin_price = None, sale_price = Some ''$4'', score = None,
        sold = None, product_link = ''/product/1'', img = PNone\<rparr>,
      \<lparr>title = PStr ''Cup'', origin_price = None, sale_price = Some ''$3'', score = None,
        sold = None, product_link = ''/product/2'', img = PNone\<rparr>,
      \<lparr>title = PStr ''Mug again'', origin_price = None, sale_price = Some ''$5'', score = None,
        sold = None, product_link = ''/product/1'', img = PNone\<rparr>]"]
  by simp

section \<open>Properties of the JSON extraction\<close>

text \<open>
  Every span the loop hands to the parser starts at a \<open>{\<close> and ends at the last
  \<open>}\<close> of the whole text: a value that is returned was parsed from such a span.
\<close>

lemma extract_loop_span:
  "extract_loop loads text start = Inr v \<Longrightarrow>
   \<exists>s e. py_rfind (CHR ''}'') text 0 (length text) = Some e \<and> start \<le> s \<and> s < e \<and>
         loads (slice text s (e + 1)) = Some v"
proof (induction loads "text" start rule: extract_loop.induct)
  case (1 loads body start)
  from "1.prems" obtain e where e: "py_rfind (CHR ''}'') body 0 (length body) = Some e"
    by (cases "py_rfind (CHR ''}'') body 0 (length body)")
      (simp_all add: extract_loop.simps [of loads body start])
  from "1.prems" e have lt: "start < e"
    by (cases "e \<le> start") (simp_all add: extract_loop.simps [of loads body start])
  show ?case
  proof (cases "loads (slice body start (e + 1))")
    case (Some d)
    with "1.prems" e lt have "d = v"
      by (simp add: extract_loop.simps [of loads body start])
    with Some e lt show ?thesis by auto
  next
    case None
    from "1.prems" e lt None obtain e' where e': "py_rfind (CHR ''}'') body start e = Some e'"
      by (cases "py_rfind (CHR ''}'') body start e")
        (simp_all add: extract_loop.simps [of loads body start])
    from "1.prems" e lt None e' obtain s' where s': "py_find (CHR ''{'') body (start + 1) = Some s'"
      by (cases "py_find (CHR ''{'') body (start + 1)")
        (simp_all add: extract_loop.simps [of loads body start])
    from "1.prems" e lt None e' s' have rec: "extract_loop loads body s' = Inr v"
      by (simp add: extract_loop.simps [of loads body start])
    from s' have ge: "start \<le> s'"
      unfolding py_find_def by (auto simp: find_Some_iff)
    from lt have nle: "\<not> e \<le> start" by simp
    from "1.IH" [OF e nle None e' s' rec] obtain s e2 where
      "py_rfind (CHR ''}'') body 0 (length body) = Some e2" "s' \<le> s" "s < e2"
      "loads (slice body s (e2 + 1)) = Some v"
      by blast
    with ge have "py_rfind (CHR ''}'') body 0 (length body) = Some e2 \<and> start \<le> s \<and> s < e2 \<and>
      loads (slice body s (e2 + 1)) = Some v"
      by simp
    then show ?thesis by blast
  qed
qed

lemma extract_json_span:
  "extract_json_from_script loads text = Inr v \<Longrightarrow>
   \<exists>s e. py_rfind (CHR ''}'') text 0 (length text) = Some e \<and> s < e \<and>
         loads (slice text s (e + 1)) = Some v"
proof -
  assume r: "extract_json_from_script loads text = Inr v"
  then obtain start where "extract_loop loads text start = Inr v"
    unfolding extract_json_from_script_def by (auto split: option.splits)
  from extract_loop_span [OF this] show ?thesis by blast
qed

text \<open>
  C5. The text is the JSON object \<^verbatim>\<open>{"a": 1}\<close> followed by a space and two closing
  braces. The object parses, yet the extraction raises ValueError: the only span tried is
  the whole text, from the first \<open>{\<close> to the last \<open>}\<close>; the end boundary is never
  moved to an earlier \<open>}\<close>. Where no closing brace follows the object, the object is
  returned.
\<close>

theorem extract_json_trailing_braces:
  \<open>loads_example ''{"a": 1}'' = Some (PDict [(''a'', PInt 1)]) \<and>
   extract_json_from_script loads_example ''{"a": 1} }}'' = Inl ValueError \<and>
   extract_json_from_script loads_example ''{"a": 1} }'' = Inl ValueError \<and>
   extract_json_from_script loads_example ''x = {"a": 1};'' = Inr (PDict [(''a'', PInt 1)])\<close>
  by code_simp

section \<open>Properties of strategy A and of the listing page\<close>

lemma product_from_dict_single_price:
  "product_from_dict rp node base_url = Inr p \<Longrightarrow> origin_price p = sale_price p"
  unfolding product_from_dict_def Let_def
  by (cases "py_or (get node ''url'') (PStr base_url)") (auto split: sum.splits)

lemma walk_single_price:
  "walk rp base_url v = Inr ps \<Longrightarrow> \<forall>p \<in> set ps. origin_price p = sale_price p"
  "walk_values rp base_url kvs = Inr ps \<Longrightarrow> \<forall>p \<in> set ps. origin_price p = sale_price p"
  "walk_items rp base_url xs = Inr ps \<Longrightarrow> \<forall>p \<in> set ps. origin_price p = sale_price p"
proof (induction rp base_url v and rp base_url kvs and rp base_url xs arbitrary: ps and ps and ps
    rule: walk_walk_values_walk_items.induct)
  case (1 rp base_url node)
  show ?case
  proof (cases "looks_like_product_dict node")
    case True
    with "1.prems" obtain p qs where
      p: "product_from_dict rp node base_url = Inr p" and
      qs: "walk_values rp base_url node = Inr qs" and ps: "ps = p # qs"
      by (auto split: sum.splits)
    from "1.IH"(1) [OF True p qs] product_from_dict_single_price [OF p] ps show ?thesis
      by simp
  next
    case False
    with "1.prems" have "walk_values rp base_url node = Inr ps" by simp
    with "1.IH"(2) [OF False] show ?thesis by simp
  qed
next
  case (5 rp base_url k v kvs)
  from "5.prems" obtain as bs where
    a: "walk rp base_url v = Inr as" and b: "walk_values rp base_url kvs = Inr bs" and
    ps: "ps = as @ bs"
    by (auto split: sum.splits)
  from "5.IH"(1) [OF a] "5.IH"(2) [OF a b] ps show ?case by auto
next
  case (7 rp base_url x xs)
  from "7.prems" obtain as bs where
    a: "walk rp base_url x = Inr as" and b: "walk_items rp base_url xs = Inr bs" and
    ps: "ps = as @ bs"
    by (auto split: sum.splits)
  from "7.IH"(1) [OF a] "7.IH"(2) [OF a b] ps show ?case by auto
qed simp_all

lemma scripts_loop_single_price:
  "scripts_loop loads rp url ss acc = Inr ps \<Longrightarrow>
   \<forall>p \<in> set acc. origin_price p = sale_price p \<Longrightarrow>
   \<forall>p \<in> set ps. origin_price p = sale_price p"
proof (induction ss arbitrary: acc)
  case Nil
  then show ?case by simp
next
  case (Cons script rest)
  show ?case
  proof (cases "scripts_loop loads rp url (script # rest) acc = scripts_loop loads rp url rest acc")
    case True
    with Cons show ?thesis by metis
  next
    case False
    then obtain data qs where
      w: "products_from_json_blob rp data url = Inr qs" and
      r: "scripts_loop loads rp url (script # rest) acc = scripts_loop loads rp url rest (acc @ qs)"
      using Cons.prems(1)
      by (auto simp: Let_def split: if_splits sum.splits error.splits)
    from w have "\<forall>p \<in> set qs. origin_price p = sale_price p"
      unfolding products_from_json_blob_def by (rule walk_single_price(1))
    with Cons.prems(2) have "\<forall>p \<in> set (acc @ qs). origin_price p = sale_price p"
      by auto
    with Cons.IH [of "acc @ qs"] Cons.prems(1) r show ?thesis by simp
  qed
qed

text \<open>
  C10. Every record of strategy A (the walk over the JSON of the script blocks) has its
  \<open>origin_price\<close> equal to its \<open>sale_price\<close>: \<^verbatim>\<open>_product_from_dict\<close> cleans the one
  \<open>raw_price\<close> twice.
\<close>

theorem strategy_a_single_price:
  "strategy_a loads rp soup url = Inr ps \<Longrightarrow> \<forall>p \<in> set ps. origin_price p = sale_price p"
  unfolding strategy_a_def by (erule scripts_loop_single_price) simp

theorem strategy_a_single_price_witness:
  "strategy_a loads_example (\<lambda>v. []) example_page ''https://shop.example/list'' = Inr [widget] \<and>
   origin_price widget = sale_price widget"
proof -
  have a: "strategy_a loads_example (\<lambda>v. []) example_page ''https://shop.example/list'' = Inr [widget]"
    by code_simp
  from strategy_a_single_price [OF a] a show ?thesis by simp
qed

text \<open>
  C6. When strategy A yields at least one record, the listing page's result is the
  de-duplication of strategy A's records and holds nothing else: the cards are not
  scanned. Strategy B's records are the result only when strategy A yields none.
\<close>

theorem strategy_precedence:
  "strategy_a loads rp soup url = Inr A \<Longrightarrow>
   (A \<noteq> [] \<longrightarrow>
      parse_listing_page loads rp soup url = Inr (dedupe A) \<and> set (dedupe A) \<subseteq> set A) \<and>
   (A = [] \<longrightarrow>
      parse_listing_page loads rp soup url = Inr (dedupe (strategy_b soup url)))"
proof -
  assume a: "strategy_a loads rp soup url = Inr A"
  have "set (dedupe A) \<subseteq> set A"
    using subseq_first_per_key [of A] by (auto simp: dedupe_first_per_key dest: list_emb_set)
  with a show ?thesis
    by (simp add: parse_listing_page_def)
qed

theorem strategy_precedence_witness:
  "strategy_b example_page ''https://shop.example/list'' = [card_record] \<and>
   parse_listing_page loads_example (\<lambda>v. []) example_page ''https://shop.example/list'' =
     Inr [widget] \<and>
   parse_listing_page loads_example (\<lambda>v. []) (example_page\<lparr>scripts := []\<rparr>)
     ''https://shop.example/list'' = Inr [card_record]"
proof -
  have a: "strategy_a loads_example (\<lambda>v. []) example_page ''https://shop.example/list'' = Inr [widget]"
    by code_simp
  have a': "strategy_a loads_example (\<lambda>v. []) (example_page\<lparr>scripts := []\<rparr>)
      ''https://shop.example/list'' = Inr []"
    by code_simp
  have b: "strategy_b example_page ''https://shop.example/list'' = [card_record]"
    by code_simp
  have b': "strategy_b (example_page\<lparr>scripts := []\<rparr>) ''https://shop.example/list'' = [card_record]"
    by code_simp
  have d: "dedupe [widget] = [widget]" "dedupe [card_record] = [card_record]"
    by (simp_all add: dedupe_def)
  from strategy_precedence [OF a] strategy_precedence [OF a'] b b' d show ?thesis
    by simp
qed

section \<open>Properties of the timestamp canonicalization\<close>

lemma round_half_even_le: "x \<le> of_int n \<Longrightarrow> round_half_even x \<le> n"
proof -
  assume le: "x \<le> of_int n"
  then have fl: "\<lfloor>x\<rfloor> \<le> n" using floor_mono [of x "of_int n"] by simp
  show ?thesis
  proof (cases "x = of_int \<lfloor>x\<rfloor>")
    case True
    then have "x - of_int \<lfloor>x\<rfloor> = 0" by simp
    then have "round_half_even x = \<lfloor>x\<rfloor>"
      by (simp add: round_half_even_def Let_def)
    with fl show ?thesis by simp
  next
    case False
    then have "of_int \<lfloor>x\<rfloor> < x"
      using of_int_floor_le [of x] by linarith
    with le have "of_int \<lfloor>x\<rfloor> < (of_int n :: rat)" by linarith
    then have "\<lfloor>x\<rfloor> < n" by simp
    moreover have "round_half_even x \<le> \<lfloor>x\<rfloor> + 1"
      by (simp add: round_half_even_def Let_def)
    ultimately show ?thesis by linarith
  qed
qed

lemma round_half_even_ge: "of_int n \<le> x \<Longrightarrow> n \<le> round_half_even x"
proof -
  assume "of_int n \<le> x"
  then have "n \<le> \<lfloor>x\<rfloor>" by (simp add: le_floor_iff)
  moreover have "\<lfloor>x\<rfloor> \<le> round_half_even x"
    by (simp add: round_half_even_def Let_def)
  ultimately show ?thesis by linarith
qed

lemma utcfromtimestamp_in_range:
  assumes "- 62135596800 \<le> q" and "q \<le> 253402300799"
  shows "\<exists>s. utcfromtimestamp_isoformat (Fin q) = Inr s"
proof -
  have "q * 1000000 \<le> of_int (253402300799 * 1000000)"
    using assms(2) by simp
  then have "round_half_even (q * 1000000) \<le> 253402300799 * 1000000"
    by (rule round_half_even_le)
  then have hi: "round_half_even (q * 1000000) div 1000000 \<le> 253402300799"
    by linarith
  have "of_int (- 62135596800 * 1000000) \<le> q * 1000000"
    using assms(1) by simp
  then have "- 62135596800 * 1000000 \<le> round_half_even (q * 1000000)"
    by (rule round_half_even_ge)
  then have lo: "- 62135596800 \<le> round_half_even (q * 1000000) div 1000000"
    by linarith
  from lo hi show ?thesis
    by (simp add: utcfromtimestamp_isoformat_def Let_def split: prod.splits)
qed

lemma float_of_int_in_range:
  "- 62135596800 \<le> i \<Longrightarrow> i \<le> 253402300799 \<Longrightarrow> float_of_int i = Inr (Fin (of_int i))"
proof -
  assume "- 62135596800 \<le> i" and "i \<le> 253402300799"
  then have "\<bar>i\<bar> \<le> 9007199254740992" by linarith
  then show ?thesis by (simp add: float_of_int_def)
qed

text \<open>
  C9, as the code has it. A falsy value (None, the numbers 0 and 0.0, False, the empty
  string) gives None. A number that is not zero and lies in the range of \<open>datetime\<close>
  (the years 1 to 9999) gives a string ending in \<open>Z\<close>; a non-empty string gives what
  the date parser gives, None when it fails; a \<open>datetime\<close> gives its own text; a
  non-empty list or dict gives None.
\<close>

theorem to_iso8601_cases:
  "(\<not> truthy dt \<longrightarrow> to_iso8601 parse_iso dt = Inr None) \<and>
   (i \<noteq> 0 \<and> - 62135596800 \<le> i \<and> i \<le> 253402300799 \<longrightarrow>
      (\<exists>s. to_iso8601 parse_iso (PInt i) = Inr (Some (s @ ''Z'')))) \<and>
   (q \<noteq> 0 \<and> - 62135596800 \<le> q \<and> q \<le> 253402300799 \<longrightarrow>
      (\<exists>s. to_iso8601 parse_iso (PFloat (Fin q)) = Inr (Some (s @ ''Z'')))) \<and>
   (s \<noteq> [] \<longrightarrow> to_iso8601 parse_iso (PStr s) = Inr (parse_iso s)) \<and>
   to_iso8601 parse_iso (PDatetime t) = Inr (Some t) \<and>
   (xs \<noteq> [] \<longrightarrow> to_iso8601 parse_iso (PList xs) = Inr None) \<and>
   (kvs \<noteq> [] \<longrightarrow> to_iso8601 parse_iso (PDict kvs) = Inr None)"
proof -
  have a: "\<not> truthy dt \<longrightarrow> to_iso8601 parse_iso dt = Inr None"
    by (simp add: to_iso8601_def)
  have b: "i \<noteq> 0 \<and> - 62135596800 \<le> i \<and> i \<le> 253402300799 \<longrightarrow>
      (\<exists>s. to_iso8601 parse_iso (PInt i) = Inr (Some (s @ ''Z'')))"
  proof
    assume h: "i \<noteq> 0 \<and> - 62135596800 \<le> i \<and> i \<le> 253402300799"
    then have f: "float_of_int i = Inr (Fin (of_int i))"
      by (simp add: float_of_int_in_range)
    from h have "- 62135596800 \<le> (of_int i :: rat)" "(of_int i :: rat) \<le> 253402300799"
      by linarith+
    then obtain s where "utcfromtimestamp_isoformat (Fin (of_int i)) = Inr s"
      using utcfromtimestamp_in_range by blast
    with h f show "\<exists>s. to_iso8601 parse_iso (PInt i) = Inr (Some (s @ ''Z''))"
      by (simp add: to_iso8601_def)
  qed
  have c: "q \<noteq> 0 \<and> - 62135596800 \<le> q \<and> q \<le> 253402300799 \<longrightarrow>
      (\<exists>s. to_iso8601 parse_iso (PFloat (Fin q)) = Inr (Some (s @ ''Z'')))"
  proof
    assume h: "q \<noteq> 0 \<and> - 62135596800 \<le> q \<and> q \<le> 253402300799"
    then obtain s where "utcfromtimestamp_isoformat (Fin q) = Inr s"
      using utcfromtimestamp_in_range by blast
    with h show "\<exists>s. to_iso8601 parse_iso (PFloat (Fin q)) = Inr (Some (s @ ''Z''))"
      by (simp add: to_iso8601_def)
  qed
  have d: "s \<noteq> [] \<longrightarrow> to_iso8601 parse_iso (PStr s) = Inr (parse_iso s)"
    by (simp add: to_iso8601_def)
  have e: "to_iso8601 parse_iso (PDatetime t) = Inr (Some t)"
    by (simp add: to_iso8601_def)
  have f: "xs \<noteq> [] \<longrightarrow> to_iso8601 parse_iso (PList xs) = Inr None"
    by (simp add: to_iso8601_def)
  have g: "kvs \<noteq> [] \<longrightarrow> to_iso8601 parse_iso (PDict kvs) = Inr None"
    by (simp add: to_iso8601_def)
  from a b c d e f g show ?thesis by blast
qed

theorem to_iso8601_cases_witness:
  "to_iso8601 (\<lambda>s. if s = ''2024-05-01'' then Some ''2024-05-01T00:00:00'' else None) PNone = Inr None \<and>
   (\<exists>s. to_iso8601 (\<lambda>s. if s = ''2024-05-01'' then Some ''2024-05-01T00:00:00'' else None)
          (PInt 1700000000) = Inr (Some (s @ ''Z''))) \<and>
   (\<exists>s. to_iso8601 (\<lambda>s. if s = ''2024-05-01'' then Some ''2024-05-01T00:00:00'' else None)
          (PFloat (Fin (3 / 2))) = Inr (Some (s @ ''Z''))) \<and>
   to_iso8601 (\<lambda>s. if s = ''2024-05-01'' then Some ''2024-05-01T00:00:00'' else None)
     (PStr ''2024-05-01'') = Inr (Some ''2024-05-01T00:00:00'') \<and>
   to_iso8601 (\<lambda>s. if s = ''2024-05-01'' then Some ''2024-05-01T00:00:00'' else None)
     (PStr ''soon'') = Inr None \<and>
   to_iso8601 (\<lambda>s. if s = ''2024-05-01'' then Some ''2024-05-01T00:00:00'' else None)
     (PList [PInt 1]) = Inr None \<and>
   to_iso8601 (\<lambda>s. if s = ''2024-05-01'' then Some ''2024-05-01T00:00:00'' else None)
     (PDict [(''t'', PInt 1)]) = Inr None"
  using to_iso8601_cases [where dt = PNone and i = 1700000000 and q = "3 / 2"
      and s = "''2024-05-01''" and xs = "[PInt 1]" and kvs = "[(''t'', PInt 1)]"
      and parse_iso = "\<lambda>s. if s = ''2024-05-01'' then Some ''2024-05-01T00:00:00'' else None"]
    to_iso8601_cases [where dt = PNone and i = 1 and q = 1
      and s = "''soon''" and xs = "[PInt 1]" and kvs = "[(''t'', PInt 1)]"
      and parse_iso = "\<lambda>s. if s = ''2024-05-01'' then Some ''2024-05-01T00:00:00'' else None"]
  by simp

text \<open>
  The claim as stated fails at the epoch itself: 0 and 0.0 are epoch-seconds values
  (\<^verbatim>\<open>utcfromtimestamp(0)\<close> is 1970-01-01T00:00:00), and the result for them is None,
  by the guard \<^verbatim>\<open>if not dt: return None\<close>.
\<close>

theorem to_iso8601_epoch_zero:
  "utcfromtimestamp_isoformat (Fin 0) = Inr ''1970-01-01T00:00:00'' \<and>
   to_iso8601 (\<lambda>s. None) (PInt 0) = Inr None \<and>
   to_iso8601 (\<lambda>s. None) (PFloat (Fin 0)) = Inr None"
  by code_simp

section \<open>Properties of the canonical mapper\<close>

text \<open>
  What the mapper does with \<open>format_price\<close> when it returns: a truthy value of the raw
  record is passed through; otherwise, when the raw record has a truthy \<open>price\<close>, the
  field is the canonical price with two decimals, a space and the currency.
\<close>

lemma map_product_format_price:
  assumes "map_product rp parse_iso raw rg = Inr out"
  shows "(truthy (get raw ''format_price'') \<longrightarrow>
            get out ''format_price'' = get raw ''format_price'') \<and>
         (\<not> truthy (get raw ''format_price'') \<and> truthy (get raw ''price'') \<longrightarrow>
            (\<exists>p. get out ''price'' = PFloat p \<and>
                 get out ''format_price'' = PStr (fmt_2f p @ '' '' @ py_str rp (get out ''currency''))))"
proof -
  from assms obtain cover price' format_price sold_count review_count created_at last_seen_at where
    p: "normalize_price rp (py_or (py_or (get raw ''price'') (get raw ''min_price'')) (PInt 0)) = Inr price'" and
    f: "(if truthy (get raw ''format_price'') then Inr (get raw ''format_price'')
         else (case normalize_price rp (get raw ''price'') of
                 Inl e \<Rightarrow> Inl e
               | Inr p \<Rightarrow> Inr (PStr (fmt_2f p @ '' '' @
                   py_str rp (py_or (get raw ''currency'') (PStr (guess_currency_from_region rg))))))) =
        Inr format_price" and
    out: "get out ''price'' = PFloat price'" "get out ''format_price'' = format_price"
      "get out ''currency'' = py_or (get raw ''currency'') (PStr (guess_currency_from_region rg))"
    unfolding map_product_def Let_def
    by (auto split: sum.splits simp: get_def get_default_def)
  show ?thesis
  proof (cases "truthy (get raw ''format_price'')")
    case True
    with f out show ?thesis by simp
  next
    case False
    show ?thesis
    proof (cases "truthy (get raw ''price'')")
      case True
      with p have "normalize_price rp (get raw ''price'') = Inr price'"
        by (simp add: py_or_def)
      with False f out show ?thesis by auto
    next
      case False
      with \<open>\<not> truthy (get raw ''format_price'')\<close> show ?thesis by simp
    qed
  qed
qed

lemma map_product_empty:
  "map_product (\<lambda>v. []) (\<lambda>s. None) [] None =
     Inr [(''product_id'', PStr []), (''title'', PStr []), (''cover'', PNone),
          (''img'', PList []), (''price'', PFloat (Fin 0)),
          (''currency'', PStr ''USD''), (''format_price'', PStr ''0.00 USD''),
          (''discount'', PNone), (''warehouse_region'', PNone),
          (''product_rating'', PStr []), (''sold_count'', PInt 0),
          (''review_count'', PInt 0), (''seller_name'', PStr []),
          (''seller_id'', PStr []), (''promotion_labels'', PList []),
          (''created_at'', PNone), (''last_seen_at'', PNone),
          (''_source'', PStr ''mock'')]"
  by code_simp

text \<open>
  C2. The raw record \<^verbatim>\<open>{"sold_count": "N/A"}\<close>: \<^verbatim>\<open>int("N/A")\<close> raises ValueError and
  nothing catches it, so the mapper raises instead of giving the count 0; the same for
  \<^verbatim>\<open>{"review_count": "12 reviews"}\<close>. (The price of the same function does fall back:
  \<^verbatim>\<open>normalize_price\<close> catches the ValueError of \<^verbatim>\<open>float\<close>.)
\<close>

theorem map_product_unparsable_count:
  "map_product (\<lambda>v. []) (\<lambda>s. None) [(''sold_count'', PStr ''N/A'')] None = Inl ValueError \<and>
   map_product (\<lambda>v. []) (\<lambda>s. None) [(''review_count'', PStr ''12 reviews'')] None = Inl ValueError \<and>
   normalize_price (\<lambda>v. []) (PStr ''N/A'') = Inr (Fin 0)"
  by code_simp

text \<open>
  C8. The raw record \<^verbatim>\<open>{"min_price": 5}\<close> has no \<open>format_price\<close>. Its canonical price
  is 5.0, from \<open>min_price\<close>; its \<open>format_price\<close> is \<open>0.00 USD\<close>, because the formatted
  value is \<^verbatim>\<open>normalize_price(raw.get('price'))\<close>, without the fallback to \<open>min_price\<close>
  that the \<open>price\<close> entry has.
\<close>

theorem map_product_min_price_format:
  "map_product (\<lambda>v. []) (\<lambda>s. None) [(''min_price'', PInt 5)] None =
     Inr [(''product_id'', PStr []), (''title'', PStr []), (''cover'', PNone),
          (''img'', PList []), (''price'', PFloat (Fin 5)),
          (''currency'', PStr ''USD''), (''format_price'', PStr ''0.00 USD''),
          (''discount'', PNone), (''warehouse_region'', PNone),
          (''product_rating'', PStr []), (''sold_count'', PInt 0),
          (''review_count'', PInt 0), (''seller_name'', PStr []),
          (''seller_id'', PStr []), (''promotion_labels'', PList []),
          (''created_at'', PNone), (''last_seen_at'', PNone),
          (''_source'', PStr ''mock'')]"
  by code_simp

section \<open>Properties of the sort engine\<close>

lemma keys_of_Inr_iff:
  "(\<exists>kxs. keys_of f xs = Inr kxs) \<longleftrightarrow> (\<forall>x \<in> set xs. \<exists>k. f x = Inr k)"
proof (induction xs)
  case Nil
  show ?case by simp
next
  case (Cons x xs)
  show ?case
  proof (cases "f x")
    case (Inl e)
    then show ?thesis by auto
  next
    case (Inr k)
    with Cons show ?thesis by (cases "keys_of f xs") auto
  qed
qed

lemma keys_of_snd: "keys_of f xs = Inr kxs \<Longrightarrow> map snd kxs = xs"
proof (induction xs arbitrary: kxs)
  case Nil
  then show ?case by simp
next
  case (Cons x xs)
  then show ?case by (auto split: sum.splits)
qed

lemma mset_insort_by: "mset (insort_by lt x ys) = add_mset x (mset ys)"
  by (induction ys) simp_all

lemma mset_sorted_by: "mset (sorted_by lt kxs) = mset kxs"
  unfolding sorted_by_def by (induction kxs) (simp_all add: mset_insort_by)

lemma py_sorted_returns:
  "(\<exists>ys. py_sorted lt f r xs = Inr ys \<and> mset ys = mset xs) \<longleftrightarrow>
   (\<forall>x \<in> set xs. \<exists>k. f x = Inr k)"
proof (cases "keys_of f xs")
  case (Inl e)
  then have "\<not> (\<exists>kxs. keys_of f xs = Inr kxs)" by simp
  then have "\<not> (\<forall>x \<in> set xs. \<exists>k. f x = Inr k)"
    using keys_of_Inr_iff [of f xs] by blast
  moreover from Inl have "py_sorted lt f r xs = Inl e"
    by (simp add: py_sorted_def)
  then have "\<not> (\<exists>ys. py_sorted lt f r xs = Inr ys \<and> mset ys = mset xs)"
    by simp
  ultimately show ?thesis by blast
next
  case (Inr kxs)
  then have all: "\<forall>x \<in> set xs. \<exists>k. f x = Inr k"
    using keys_of_Inr_iff [of f xs] by blast
  from Inr have snd: "map snd kxs = xs" by (rule keys_of_snd)
  have "mset (map snd (if r then rev (sorted_by lt (rev kxs)) else sorted_by lt kxs)) =
      mset (map snd kxs)"
    by (simp add: mset_sorted_by)
  with Inr snd have "\<exists>ys. py_sorted lt f r xs = Inr ys \<and> mset ys = mset xs"
    by (simp add: py_sorted_def)
  with all show ?thesis by blast
qed

text \<open>
  C4, as the code has it. Under a price mode the sort returns (a permutation of the
  input) exactly when \<^verbatim>\<open>float()\<close> accepts the price of every record, under
  \<open>BEST_SELLERS\<close> exactly when \<^verbatim>\<open>int()\<close> accepts every \<open>sold_count\<close>; a record
  without the field has the key 0; every other mode, \<open>RELEVANCE\<close> among them, returns
  the input as it is.
\<close>

theorem apply_sort_returns:
  "((\<exists>ys. apply_sort items ''PRICE_ASC'' = Inr ys \<and> mset ys = mset items) \<longleftrightarrow>
      (\<forall>x \<in> set items. \<exists>k. price_key x = Inr k)) \<and>
   ((\<exists>ys. apply_sort items ''PRICE_DESC'' = Inr ys \<and> mset ys = mset items) \<longleftrightarrow>
      (\<forall>x \<in> set items. \<exists>k. price_key x = Inr k)) \<and>
   ((\<exists>ys. apply_sort items ''BEST_SELLERS'' = Inr ys \<and> mset ys = mset items) \<longleftrightarrow>
      (\<forall>x \<in> set items. \<exists>k. sold_key x = Inr k)) \<and>
   (m \<noteq> ''PRICE_ASC'' \<and> m \<noteq> ''PRICE_DESC'' \<and> m \<noteq> ''BEST_SELLERS'' \<longrightarrow>
      apply_sort items m = Inr items) \<and>
   (map_of x ''price'' = None \<longrightarrow> price_key x = Inr (Fin 0)) \<and>
   (map_of x ''sold_count'' = None \<longrightarrow> sold_key x = Inr 0)"
proof -
  have a: "(\<exists>ys. apply_sort items ''PRICE_ASC'' = Inr ys \<and> mset ys = mset items) \<longleftrightarrow>
      (\<forall>x \<in> set items. \<exists>k. price_key x = Inr k)"
    using py_sorted_returns [of float_less price_key False items]
    by (simp add: apply_sort_def)
  have b: "(\<exists>ys. apply_sort items ''PRICE_DESC'' = Inr ys \<and> mset ys = mset items) \<longleftrightarrow>
      (\<forall>x \<in> set items. \<exists>k. price_key x = Inr k)"
    using py_sorted_returns [of float_less price_key True items]
    by (simp add: apply_sort_def)
  have c: "(\<exists>ys. apply_sort items ''BEST_SELLERS'' = Inr ys \<and> mset ys = mset items) \<longleftrightarrow>
      (\<forall>x \<in> set items. \<exists>k. sold_key x = Inr k)"
    using py_sorted_returns [of "(<)" sold_key True items]
    by (simp add: apply_sort_def)
  have d: "m \<noteq> ''PRICE_ASC'' \<and> m \<noteq> ''PRICE_DESC'' \<and> m \<noteq> ''BEST_SELLERS'' \<longrightarrow>
      apply_sort items m = Inr items"
    by (simp add: apply_sort_def)
  have e: "map_of x ''price'' = None \<longrightarrow> price_key x = Inr (Fin 0)"
    by (simp add: price_key_def get_default_def float_of_int_def)
  have f: "map_of x ''sold_count'' = None \<longrightarrow> sold_key x = Inr 0"
    by (simp add: sold_key_def get_default_def)
  from a b c d e f show ?thesis by blast
qed

theorem apply_sort_returns_witness:
  "apply_sort [[(''price'', PInt 3)], [(''title'', PStr ''no price'')], [(''price'', PStr ''1.5'')]]
     ''PRICE_ASC'' =
     Inr [[(''title'', PStr ''no price'')], [(''price'', PStr ''1.5'')], [(''price'', PInt 3)]] \<and>
   apply_sort [[(''price'', PStr ''abc'')]] ''RELEVANCE'' = Inr [[(''price'', PStr ''abc'')]] \<and>
   price_key [(''title'', PStr ''no price'')] = Inr (Fin 0) \<and>
   sold_key [(''title'', PStr ''no price'')] = Inr 0"
proof -
  have e: "apply_sort [[(''price'', PInt 3)], [(''title'', PStr ''no price'')], [(''price'', PStr ''1.5'')]]
     ''PRICE_ASC'' =
     Inr [[(''title'', PStr ''no price'')], [(''price'', PStr ''1.5'')], [(''price'', PInt 3)]]"
    by code_simp
  from e apply_sort_returns [where items = "[[(''price'', PStr ''abc'')]]" and m = "''RELEVANCE''"
      and x = "[(''title'', PStr ''no price'')]"]
  show ?thesis by simp
qed

text \<open>
  The claim as stated fails where a field is present and cannot be coerced: the key
  function raises, and with it the sort.
\<close>

theorem apply_sort_raises:
  "apply_sort [[(''price'', PStr ''abc'')]] ''PRICE_ASC'' = Inl ValueError \<and>
   apply_sort [[(''price'', PNone)]] ''PRICE_DESC'' = Inl TypeError \<and>
   apply_sort [[(''sold_count'', PStr ''1.2k'')]] ''BEST_SELLERS'' = Inl ValueError"
  by code_simp

section \<open>Properties of the mock generator\<close>

lemma length_mock_loop: "length (mock_loop R kw rg cur i n rnd) = n"
  by (induction n arbitrary: i rnd) (simp_all split: prod.splits)

text \<open>
  C1. The records the generator yields are a function of its four arguments alone:
  whatever the state of the process-wide generator, before the first call or after any
  number of draws from it, two calls with the same keyword, trending flag, region and
  limit give the same list of records, and a call leaves that state as it found it (so
  a second call right after the first repeats it). The list has \<open>limit\<close> records.
\<close>

theorem mock_products_deterministic:
  "fst (mock_products R g1 kw t rg lmt) = fst (mock_products R g2 kw t rg lmt) \<and>
   snd (mock_products R g1 kw t rg lmt) = g1 \<and>
   fst (mock_products R (snd (mock_products R g1 kw t rg lmt)) kw t rg lmt) =
     fst (mock_products R g1 kw t rg lmt) \<and>
   length (fst (mock_products R g1 kw t rg lmt)) = nat lmt"
  by (simp add: mock_products_def Let_def length_mock_loop)

section \<open>Properties of the search-request validation\<close>

text \<open>
  The validator of \<open>keyword\<close> itself has the rule of the specification: it accepts
  exactly when the data it is shown has a non-empty \<open>startUrls\<close> or a true
  \<open>isTrending\<close>, or the keyword is a non-empty string.
\<close>

lemma validate_keyword_rule:
  "(\<exists>k. validate_keyword v data = Inr k) \<longleftrightarrow>
   (truthy (get data ''startUrls'') \<or> truthy (get_default data ''isTrending'' (PBool False)) \<or>
    (v \<noteq> None \<and> v \<noteq> Some []))"
  by (auto simp: validate_keyword_def Let_def)

text \<open>
  C3. The validation as a whole does not have it. The empty payload \<open>{}\<close> (no keyword,
  no \<open>startUrls\<close>, \<open>isTrending\<close> false by default) is accepted, and so is a payload
  with an empty \<open>startUrls\<close> and a false \<open>isTrending\<close>: the validator is not called
  for an absent keyword. A payload with \<open>keyword\<close> null and \<open>isTrending\<close> true, or
  with an empty keyword and a non-empty \<open>startUrls\<close>, is rejected by the model:
  \<open>keyword\<close> is the first field, and its validator is shown no other field. And what
  leaves \<^verbatim>\<open>validate_input\<close> on a rejection is a TypeError, not a validation error.
\<close>

theorem validate_input_keyword_rule:
  "validate_input empty_payload =
     Inr \<lparr>keyword = None, isTrending = False, region = None, sortType = ''RELEVANCE'',
          limit = 50, startUrls = None\<rparr> \<and>
   validate_input (empty_payload\<lparr>p_isTrending := Given False, p_startUrls := Given (Some [])\<rparr>) =
     Inr \<lparr>keyword = None, isTrending = False, region = None, sortType = ''RELEVANCE'',
          limit = 50, startUrls = Some []\<rparr> \<and>
   model_validate (empty_payload\<lparr>p_keyword := Given None, p_isTrending := Given True\<rparr>) =
     Inl ValidationError \<and>
   validate_input (empty_payload\<lparr>p_keyword := Given None, p_isTrending := Given True\<rparr>) =
     Inl TypeError \<and>
   model_validate (empty_payload\<lparr>p_keyword := Given (Some ''''),
       p_startUrls := Given (Some [''https://shop.example/product/1''])\<rparr>) =
     Inl ValidationError \<and>
   validate_input (empty_payload\<lparr>p_keyword := Given (Some ''''),
       p_startUrls := Given (Some [''https://shop.example/product/1''])\<rparr>) =
     Inl TypeError"
  by code_simp

end
